theory Spec2Isabelle
  imports Complex_Main
begin

section \<open>JSON values and the JavaScript runtime\<close>

text \<open>
  The handlers of the server read \<^verbatim>\<open>req.body\<close>, whose fields have the TypeScript type
  \<^verbatim>\<open>any\<close>. A field is one of the primitive JSON values, or absent (\<open>JUndefined\<close>).
  Arrays and objects as field values are not modelled.
\<close>

datatype json = JUndefined | JNull | JBool bool | JNum real | JStr string

text \<open>JavaScript's truthiness, as used by \<^verbatim>\<open>x ? a : b\<close>, \<^verbatim>\<open>x || y\<close> and \<^verbatim>\<open>if (x)\<close>.\<close>

fun truthy :: "json \<Rightarrow> bool" where
  "truthy JUndefined = False"
| "truthy JNull = False"
| "truthy (JBool b) = b"
| "truthy (JNum r) = (r \<noteq> 0)"
| "truthy (JStr s) = (s \<noteq> [])"

text \<open>The payload that the middleware reads from a verified token (\<^verbatim>\<open>interface JwtPayload\<close>).\<close>

record JwtPayload =
  userId :: int
  email :: string

text \<open>
  Library functions that the handlers call are parameters of the model: every theorem
  holds for every runtime.
  \<^item> \<open>parseInt\<close> (\<^verbatim>\<open>parseInt(v, 10)\<close>) and \<open>toNumber\<close> (\<^verbatim>\<open>Number(v)\<close>) return \<open>None\<close> when
    the result is \<^verbatim>\<open>NaN\<close> or a number that an \<^verbatim>\<open>Int\<close> argument does not take;
    \<open>parseInt_isNaN\<close> and \<open>toNumber_isNaN\<close> tell whether the result is \<^verbatim>\<open>NaN\<close>.
  \<^item> \<open>parseFloat\<close> returns \<open>None\<close> when the result is \<^verbatim>\<open>NaN\<close>; a \<^verbatim>\<open>Float\<close> column takes
    every number.
  \<^item> \<open>newDate\<close> (\<^verbatim>\<open>new Date(v)\<close>) returns \<open>None\<close> for an invalid date.
  \<^item> \<open>jwt_verify\<close> (\<^verbatim>\<open>jwt.verify(token, JWT_SECRET)\<close>) returns \<open>None\<close> where it throws.

  What the store does with such a value depends on where it arrives. \<^verbatim>\<open>NaN\<close> reaches the
  store as \<^verbatim>\<open>null\<close>: in a \<^verbatim>\<open>where\<close> argument or a required column the client throws, and
  a nullable column stores \<^verbatim>\<open>null\<close>. A number that an \<^verbatim>\<open>Int\<close> argument does not take and
  an invalid date make the client throw wherever they arrive. In the source every such
  value is handed to the store in the statement that follows its computation, so an
  exception is raised before anything else happens.
\<close>

record runtime =
  parseInt :: "json \<Rightarrow> int option"
  parseInt_isNaN :: "json \<Rightarrow> bool"
  parseFloat :: "json \<Rightarrow> real option"
  toNumber :: "json \<Rightarrow> int option"
  toNumber_isNaN :: "json \<Rightarrow> bool"
  newDate :: "json \<Rightarrow> nat option"
  jwt_verify :: "string \<Rightarrow> JwtPayload option"
  toLowerCase :: "string \<Rightarrow> string"

section \<open>The data model (schema.prisma)\<close>

text \<open>Timestamps (\<^verbatim>\<open>DateTime\<close>) are natural numbers; \<^verbatim>\<open>Float\<close> columns hold reals.\<close>

record User =
  u_id :: int
  u_email :: string
  u_password :: string
  u_name :: "string option"
  u_phone :: "string option"
  u_pushToken :: "string option"
  u_createdAt :: nat
  u_updatedAt :: nat

record Group =
  g_id :: int
  g_name :: string
  g_description :: "string option"
  g_contribution :: "real option"
  g_frequency :: "string option"
  g_maxMembers :: "int option"
  g_createdAt :: nat
  g_updatedAt :: nat

record Membership =
  m_id :: int
  m_userId :: int
  m_groupId :: int
  m_role :: string
  m_joinedAt :: nat

record Cycle =
  c_id :: int
  c_groupId :: int
  c_cycleIndex :: int
  c_startDate :: "nat option"
  c_endDate :: "nat option"
  c_recipientUserId :: "int option"
  c_status :: string
  c_createdAt :: nat

record Payment =
  p_id :: int
  p_cycleId :: int
  p_userId :: int
  p_amount :: real
  p_paid :: bool
  p_paidAt :: "nat option"

text \<open>
  The store: one list of rows per table, in insertion order, and the next value of each
  \<^verbatim>\<open>autoincrement()\<close> sequence. An insert that fails leaves the sequence of the model where
  it was.
\<close>

record database =
  users :: "User list"
  groups :: "Group list"
  memberships :: "Membership list"
  cycles :: "Cycle list"
  payments :: "Payment list"
  user_seq :: int
  group_seq :: int
  membership_seq :: int
  cycle_seq :: int
  payment_seq :: int

section \<open>Store operations (the Prisma client)\<close>

text \<open>
  \<^verbatim>\<open>findUnique\<close> returns the row or \<^verbatim>\<open>null\<close>; a write returns \<open>None\<close> where the client
  throws (record not found, unique or foreign-key violation, invalid argument).
\<close>

definition user_findUnique :: "database \<Rightarrow> int \<Rightarrow> User option" where
  "user_findUnique d k = find (\<lambda>u. u_id u = k) (users d)"

definition user_findUnique_email :: "database \<Rightarrow> string \<Rightarrow> User option" where
  "user_findUnique_email d e = find (\<lambda>u. u_email u = e) (users d)"

definition group_findUnique :: "database \<Rightarrow> int \<Rightarrow> Group option" where
  "group_findUnique d k = find (\<lambda>g. g_id g = k) (groups d)"

definition membership_findUnique :: "database \<Rightarrow> int \<Rightarrow> Membership option" where
  "membership_findUnique d k = find (\<lambda>m. m_id m = k) (memberships d)"

definition membership_findUnique_userId_groupId ::
  "database \<Rightarrow> int \<Rightarrow> int \<Rightarrow> Membership option" where
  "membership_findUnique_userId_groupId d uid gid =
     find (\<lambda>m. m_userId m = uid \<and> m_groupId m = gid) (memberships d)"

definition membership_findMany_groupId :: "database \<Rightarrow> int \<Rightarrow> Membership list" where
  "membership_findMany_groupId d gid = filter (\<lambda>m. m_groupId m = gid) (memberships d)"

definition cycle_findUnique :: "database \<Rightarrow> int \<Rightarrow> Cycle option" where
  "cycle_findUnique d k = find (\<lambda>c. c_id c = k) (cycles d)"

definition payment_findUnique :: "database \<Rightarrow> int \<Rightarrow> Payment option" where
  "payment_findUnique d k = find (\<lambda>p. p_id p = k) (payments d)"

definition payment_findMany_cycleId :: "database \<Rightarrow> int \<Rightarrow> Payment list" where
  "payment_findMany_cycleId d cid = filter (\<lambda>p. p_cycleId p = cid) (payments d)"

text \<open>
  \<^verbatim>\<open>update({where: {id}, data})\<close>: the row with that key gets the new data; it throws when
  there is none. Keys are unique in the store, so the row that \<open>findUnique\<close> returns is the
  only one that \<open>update_where\<close> touches.
\<close>

definition update_where :: "('a \<Rightarrow> bool) \<Rightarrow> ('a \<Rightarrow> 'a) \<Rightarrow> 'a list \<Rightarrow> 'a list" where
  "update_where P f xs = map (\<lambda>x. if P x then f x else x) xs"

definition payment_update ::
  "database \<Rightarrow> int \<Rightarrow> (Payment \<Rightarrow> Payment) \<Rightarrow> (Payment \<times> database) option" where
  "payment_update d k f =
     (case payment_findUnique d k of
        None \<Rightarrow> None
      | Some p \<Rightarrow> Some (f p, d\<lparr>payments := update_where (\<lambda>x. p_id x = k) f (payments d)\<rparr>))"

text \<open>
  How the client validates a JSON value handed to a \<^verbatim>\<open>String\<close> column. In \<^verbatim>\<open>create\<close>,
  \<^verbatim>\<open>undefined\<close> leaves an optional column \<^verbatim>\<open>null\<close> and is an error for a required one; in
  \<^verbatim>\<open>update\<close>, \<^verbatim>\<open>undefined\<close> leaves the column as it is (\<open>Keep\<close>). \<open>None\<close> is the
  validation error.
\<close>

definition required_string :: "json \<Rightarrow> string option" where
  "required_string v = (case v of JStr s \<Rightarrow> Some s | _ \<Rightarrow> None)"

definition optional_string :: "json \<Rightarrow> string option option" where
  "optional_string v =
     (case v of JUndefined \<Rightarrow> Some None | JNull \<Rightarrow> Some None | JStr s \<Rightarrow> Some (Some s)
      | _ \<Rightarrow> None)"

datatype 'a field = Keep | Put 'a

fun assign :: "'a field \<Rightarrow> 'a \<Rightarrow> 'a" where
  "assign Keep old = old"
| "assign (Put v) old = v"

text \<open>
  A computed number handed to a nullable \<^verbatim>\<open>Int\<close> column: \<^verbatim>\<open>NaN\<close> is stored as \<^verbatim>\<open>null\<close>,
  another number that the column does not take is a validation error.
\<close>

definition nullable_int :: "int option \<Rightarrow> bool \<Rightarrow> int option option" where
  "nullable_int n isNaN =
     (case n of Some k \<Rightarrow> Some (Some k) | None \<Rightarrow> if isNaN then Some None else None)"

definition string_field :: "json \<Rightarrow> string field option" where
  "string_field v = (case v of JUndefined \<Rightarrow> Some Keep | JStr s \<Rightarrow> Some (Put s) | _ \<Rightarrow> None)"

definition nullable_string_field :: "json \<Rightarrow> string option field option" where
  "nullable_string_field v =
     (case v of JUndefined \<Rightarrow> Some Keep | JNull \<Rightarrow> Some (Put None)
      | JStr s \<Rightarrow> Some (Put (Some s)) | _ \<Rightarrow> None)"

text \<open>
  \<^verbatim>\<open>prisma.user.create\<close>: \<^verbatim>\<open>email\<close> is unique; \<^verbatim>\<open>password\<close> is required; \<^verbatim>\<open>name\<close> and
  \<^verbatim>\<open>phone\<close> are optional.
\<close>

definition user_create ::
  "database \<Rightarrow> nat \<Rightarrow> string \<Rightarrow> json \<Rightarrow> json \<Rightarrow> json \<Rightarrow> (User \<times> database) option" where
  "user_create d now email' password name phone =
     (case (required_string password, optional_string name, optional_string phone) of
        (Some pw, Some n, Some ph) \<Rightarrow>
          if user_findUnique_email d email' \<noteq> None then None
          else
            let user = \<lparr>u_id = user_seq d, u_email = email', u_password = pw, u_name = n,
                        u_phone = ph, u_pushToken = None, u_createdAt = now, u_updatedAt = now\<rparr>
            in Some (user, d\<lparr>users := users d @ [user], user_seq := user_seq d + 1\<rparr>)
      | _ \<Rightarrow> None)"

text \<open>\<^verbatim>\<open>prisma.group.update\<close>; \<^verbatim>\<open>updatedAt\<close> carries \<^verbatim>\<open>@updatedAt\<close>.\<close>

definition group_update ::
  "database \<Rightarrow> nat \<Rightarrow> int \<Rightarrow> string field \<Rightarrow> string option field \<Rightarrow> real option field \<Rightarrow>
   string option field \<Rightarrow> int option field \<Rightarrow> (Group \<times> database) option" where
  "group_update d now k name description contribution frequency maxMembers =
     (case group_findUnique d k of
        None \<Rightarrow> None
      | Some g \<Rightarrow>
          let f = (\<lambda>g. g\<lparr>g_name := assign name (g_name g),
                          g_description := assign description (g_description g),
                          g_contribution := assign contribution (g_contribution g),
                          g_frequency := assign frequency (g_frequency g),
                          g_maxMembers := assign maxMembers (g_maxMembers g),
                          g_updatedAt := now\<rparr>)
          in Some (f g, d\<lparr>groups := update_where (\<lambda>x. g_id x = k) f (groups d)\<rparr>))"

text \<open>
  \<^verbatim>\<open>prisma.membership.create\<close>: both foreign keys must point to a row, and
  \<^verbatim>\<open>@@unique([userId, groupId])\<close> must hold.
\<close>

definition membership_create ::
  "database \<Rightarrow> nat \<Rightarrow> int \<Rightarrow> int \<Rightarrow> string \<Rightarrow> (Membership \<times> database) option" where
  "membership_create d now uid gid role =
     (if user_findUnique d uid = None \<or> group_findUnique d gid = None
         \<or> membership_findUnique_userId_groupId d uid gid \<noteq> None then None
      else
        let membership = \<lparr>m_id = membership_seq d, m_userId = uid, m_groupId = gid,
                          m_role = role, m_joinedAt = now\<rparr>
        in Some (membership, d\<lparr>memberships := memberships d @ [membership],
                                membership_seq := membership_seq d + 1\<rparr>))"

text \<open>\<^verbatim>\<open>prisma.membership.delete({where: {id}})\<close>.\<close>

definition membership_delete :: "database \<Rightarrow> int \<Rightarrow> database option" where
  "membership_delete d k =
     (case membership_findUnique d k of
        None \<Rightarrow> None
      | Some m \<Rightarrow> Some (d\<lparr>memberships := filter (\<lambda>x. m_id x \<noteq> k) (memberships d)\<rparr>))"

text \<open>
  \<^verbatim>\<open>prisma.payment.deleteMany({where: {userId, cycle: {groupId}}})\<close>: the payments of that
  user whose cycle belongs to that group.
\<close>

definition payment_of_user_in_group :: "database \<Rightarrow> int \<Rightarrow> int \<Rightarrow> Payment \<Rightarrow> bool" where
  "payment_of_user_in_group d uid gid p =
     (p_userId p = uid \<and>
      (case cycle_findUnique d (p_cycleId p) of None \<Rightarrow> False | Some c \<Rightarrow> c_groupId c = gid))"

definition payment_deleteMany_userId_groupId :: "database \<Rightarrow> int \<Rightarrow> int \<Rightarrow> database" where
  "payment_deleteMany_userId_groupId d uid gid =
     d\<lparr>payments := filter (\<lambda>p. \<not> payment_of_user_in_group d uid gid p) (payments d)\<rparr>"

text \<open>
  \<^verbatim>\<open>prisma.cycle.create\<close>: \<^verbatim>\<open>groupId\<close> and, when given, \<^verbatim>\<open>recipientUserId\<close> are foreign
  keys.
\<close>

definition cycle_create ::
  "database \<Rightarrow> nat \<Rightarrow> int \<Rightarrow> int \<Rightarrow> nat option \<Rightarrow> nat option \<Rightarrow> int option \<Rightarrow> string \<Rightarrow>
   (Cycle \<times> database) option" where
  "cycle_create d now gid cycleIndex startDate endDate recipientUserId status' =
     (if group_findUnique d gid = None then None
      else if (case recipientUserId of None \<Rightarrow> False | Some r \<Rightarrow> user_findUnique d r = None)
      then None
      else
        let cycle = \<lparr>c_id = cycle_seq d, c_groupId = gid, c_cycleIndex = cycleIndex,
                     c_startDate = startDate, c_endDate = endDate,
                     c_recipientUserId = recipientUserId, c_status = status',
                     c_createdAt = now\<rparr>
        in Some (cycle, d\<lparr>cycles := cycles d @ [cycle], cycle_seq := cycle_seq d + 1\<rparr>))"

text \<open>\<^verbatim>\<open>prisma.cycle.update\<close>.\<close>

definition cycle_update ::
  "database \<Rightarrow> int \<Rightarrow> int option field \<Rightarrow> string field \<Rightarrow> (Cycle \<times> database) option" where
  "cycle_update d k recipientUserId status' =
     (case cycle_findUnique d k of
        None \<Rightarrow> None
      | Some c \<Rightarrow>
          if (case recipientUserId of Put (Some r) \<Rightarrow> user_findUnique d r = None | _ \<Rightarrow> False)
          then None
          else
            let f = (\<lambda>c. c\<lparr>c_recipientUserId := assign recipientUserId (c_recipientUserId c),
                            c_status := assign status' (c_status c)\<rparr>)
            in Some (f c, d\<lparr>cycles := update_where (\<lambda>x. c_id x = k) f (cycles d)\<rparr>))"

text \<open>
  \<^verbatim>\<open>prisma.payment.createMany\<close>: one row per entry \<^verbatim>\<open>{cycleId, userId, amount}\<close>, with the
  defaults \<^verbatim>\<open>paid = false\<close> and \<^verbatim>\<open>paidAt = null\<close>, numbered from the sequence. It is one
  statement: a foreign key that points nowhere fails all of it.
\<close>

fun payment_rows :: "int \<Rightarrow> (int \<times> int \<times> real) list \<Rightarrow> Payment list" where
  "payment_rows k [] = []"
| "payment_rows k ((cid, uid, amount) # rest) =
     \<lparr>p_id = k, p_cycleId = cid, p_userId = uid, p_amount = amount, p_paid = False,
      p_paidAt = None\<rparr> # payment_rows (k + 1) rest"

definition payment_createMany :: "database \<Rightarrow> (int \<times> int \<times> real) list \<Rightarrow> database option" where
  "payment_createMany d paymentsData =
     (if list_all (\<lambda>(cid, uid, amount).
            cycle_findUnique d cid \<noteq> None \<and> user_findUnique d uid \<noteq> None) paymentsData
      then Some (d\<lparr>payments := payments d @ payment_rows (payment_seq d) paymentsData,
                   payment_seq := payment_seq d + int (length paymentsData)\<rparr>)
      else None)"

section \<open>Requests and responses\<close>

text \<open>
  A request carries the \<^verbatim>\<open>Authorization\<close> header, the route parameter (a string, as Express
  delivers it) and the fields of the JSON body.
\<close>

record request =
  authorization :: "string option"
  param :: string
  body :: "string \<Rightarrow> json"

text \<open>The user object without its \<^verbatim>\<open>password\<close> field (\<^verbatim>\<open>userWithoutPassword\<close>).\<close>

record UserWithoutPassword =
  w_id :: int
  w_email :: string
  w_name :: "string option"
  w_phone :: "string option"
  w_pushToken :: "string option"
  w_createdAt :: nat
  w_updatedAt :: nat

text \<open>The projection \<^verbatim>\<open>select: {id, name, email}\<close> of a user.\<close>

record UserSummary =
  s_id :: int
  s_name :: "string option"
  s_email :: string

datatype payload =
    ErrorBody string
  | MessageBody string
  | UserBody UserWithoutPassword
  | GroupBody Group
  | MembershipBody Membership
  | CycleCreatedBody Cycle string
  | CycleBody Cycle "Group option" "UserSummary option"
  | PaymentBody Payment
  | PaymentsBody "(Payment \<times> User option \<times> Cycle option) list"

datatype response = Response (status: nat) (content: payload)

section \<open>The authorization guard (authMiddleware.ts)\<close>

text \<open>\<^verbatim>\<open>s.split(' ')\<close>: the pieces of \<open>s\<close> between single spaces.\<close>

fun split :: "char \<Rightarrow> string \<Rightarrow> string list" where
  "split c [] = [[]]"
| "split c (x # xs) =
     (if x = c then [] # split c xs
      else (case split c xs of [] \<Rightarrow> [[x]] | w # ws \<Rightarrow> (x # w) # ws))"

definition authMiddleware :: "runtime \<Rightarrow> request \<Rightarrow> response + JwtPayload" where
  "authMiddleware rt req =
     (case authorization req of
        None \<Rightarrow> Inl (Response 401 (ErrorBody ''No token provided''))
      | Some authHeader \<Rightarrow>
          if authHeader = [] then Inl (Response 401 (ErrorBody ''No token provided''))
          else (case split CHR '' '' authHeader of
                  _ # token # _ \<Rightarrow>
                    if token = [] then Inl (Response 401 (ErrorBody ''Malformed token''))
                    else (case jwt_verify rt token of
                            None \<Rightarrow> Inl (Response 401 (ErrorBody ''Invalid token''))
                          | Some decoded \<Rightarrow>
                              Inr \<lparr>userId = userId decoded, email = email decoded\<rparr>)
                | _ \<Rightarrow> Inl (Response 401 (ErrorBody ''Malformed token''))))"

section \<open>Payment service\<close>

text \<open>\<^verbatim>\<open>PUT /payments/:paymentId/pay\<close>. The ownership check is commented out in the source.\<close>

definition put_payments_pay ::
  "runtime \<Rightarrow> database \<Rightarrow> nat \<Rightarrow> request \<Rightarrow> database \<times> response" where
  "put_payments_pay rt d now req =
     (case authMiddleware rt req of
        Inl r \<Rightarrow> (d, r)
      | Inr caller \<Rightarrow>
          (case parseInt rt (JStr (param req)) of
             None \<Rightarrow> (d, Response 500 (ErrorBody ''Failed to mark payment as paid''))
           | Some paymentIdNum \<Rightarrow>
               (case payment_update d paymentIdNum
                       (\<lambda>p. p\<lparr>p_paid := True, p_paidAt := Some now\<rparr>) of
                  None \<Rightarrow> (d, Response 500 (ErrorBody ''Failed to mark payment as paid''))
                | Some (updatedPayment, d') \<Rightarrow> (d', Response 200 (PaymentBody updatedPayment)))))"

text \<open>\<^verbatim>\<open>GET /cycles/:cycleId/payments\<close>, with \<^verbatim>\<open>include: {user: true, cycle: true}\<close>.\<close>

definition get_cycles_payments ::
  "runtime \<Rightarrow> database \<Rightarrow> request \<Rightarrow> database \<times> response" where
  "get_cycles_payments rt d req =
     (case authMiddleware rt req of
        Inl r \<Rightarrow> (d, r)
      | Inr caller \<Rightarrow>
          (case parseInt rt (JStr (param req)) of
             None \<Rightarrow> (d, Response 500 (ErrorBody ''Failed to fetch payments''))
           | Some cycleIdNum \<Rightarrow>
               (case cycle_findUnique d cycleIdNum of
                  None \<Rightarrow> (d, Response 404 (ErrorBody ''Cycle not found''))
                | Some cycle \<Rightarrow>
                    (case membership_findUnique_userId_groupId d (userId caller) (c_groupId cycle) of
                       None \<Rightarrow> (d, Response 403 (ErrorBody ''You are not a member of this group''))
                     | Some membership \<Rightarrow>
                         (d, Response 200 (PaymentsBody
                               (map (\<lambda>p. (p, user_findUnique d (p_userId p),
                                            cycle_findUnique d (p_cycleId p)))
                                    (payment_findMany_cycleId d cycleIdNum))))))))"

section \<open>User registration\<close>

definition without_password :: "User \<Rightarrow> UserWithoutPassword" where
  "without_password u =
     \<lparr>w_id = u_id u, w_email = u_email u, w_name = u_name u, w_phone = u_phone u,
      w_pushToken = u_pushToken u, w_createdAt = u_createdAt u, w_updatedAt = u_updatedAt u\<rparr>"

text \<open>
  \<^verbatim>\<open>POST /users\<close> of the active server (no guard). \<^verbatim>\<open>email.toLowerCase()\<close> throws unless
  \<^verbatim>\<open>email\<close> is a string. The source's comment: "For simplicity, storing plain text
  (testing only)".
\<close>

definition post_users ::
  "runtime \<Rightarrow> database \<Rightarrow> nat \<Rightarrow> request \<Rightarrow> database \<times> response" where
  "post_users rt d now req =
     (case body req ''email'' of
        JStr email' \<Rightarrow>
          (let normalizedEmail = toLowerCase rt email' in
           case user_create d now normalizedEmail (body req ''password'') (body req ''name'')
                  (body req ''phone'') of
             None \<Rightarrow> (d, Response 500 (ErrorBody ''Failed to create user''))
           | Some (user, d') \<Rightarrow> (d', Response 201 (UserBody (without_password user))))
      | _ \<Rightarrow> (d, Response 500 (ErrorBody ''Failed to create user'')))"

section \<open>Group service\<close>

text \<open>
  The data of \<^verbatim>\<open>PUT /groups/:groupId\<close>:
  \<^verbatim>\<open>contribution: contribution ? parseFloat(contribution) : null\<close> and
  \<^verbatim>\<open>maxMembers: maxMembers ? parseInt(maxMembers, 10) : null\<close>. Both columns are nullable:
  a truthy value that parses to \<^verbatim>\<open>NaN\<close> is stored as \<^verbatim>\<open>null\<close>.
\<close>

definition contribution_data :: "runtime \<Rightarrow> json \<Rightarrow> real option field" where
  "contribution_data rt contribution =
     Put (if truthy contribution then parseFloat rt contribution else None)"

definition maxMembers_data :: "runtime \<Rightarrow> json \<Rightarrow> int option field option" where
  "maxMembers_data rt maxMembers =
     (if truthy maxMembers
      then map_option Put (nullable_int (parseInt rt maxMembers) (parseInt_isNaN rt maxMembers))
      else Some (Put None))"

definition put_groups ::
  "runtime \<Rightarrow> database \<Rightarrow> nat \<Rightarrow> request \<Rightarrow> database \<times> response" where
  "put_groups rt d now req =
     (case authMiddleware rt req of
        Inl r \<Rightarrow> (d, r)
      | Inr caller \<Rightarrow>
          (case parseInt rt (JStr (param req)) of
             None \<Rightarrow> (d, Response 500 (ErrorBody ''Failed to update group''))
           | Some groupId \<Rightarrow>
               (case membership_findUnique_userId_groupId d (userId caller) groupId of
                  None \<Rightarrow> (d, Response 403 (ErrorBody ''Only group admins can update the group''))
                | Some membership \<Rightarrow>
                    if m_role membership \<noteq> ''admin''
                    then (d, Response 403 (ErrorBody ''Only group admins can update the group''))
                    else
                      (case (string_field (body req ''name''),
                             nullable_string_field (body req ''description''),
                             nullable_string_field (body req ''frequency''),
                             maxMembers_data rt (body req ''maxMembers'')) of
                         (Some name, Some description, Some frequency, Some maxMembers) \<Rightarrow>
                           (case group_update d now groupId name description
                                   (contribution_data rt (body req ''contribution''))
                                   frequency maxMembers of
                              None \<Rightarrow> (d, Response 500 (ErrorBody ''Failed to update group''))
                            | Some (updatedGroup, d') \<Rightarrow>
                                (d', Response 200 (GroupBody updatedGroup)))
                       | _ \<Rightarrow> (d, Response 500 (ErrorBody ''Failed to update group''))))))"

section \<open>Membership service\<close>

text \<open>\<^verbatim>\<open>role: role || 'member'\<close>, handed to a \<^verbatim>\<open>String\<close> column.\<close>

definition role_data :: "json \<Rightarrow> string option" where
  "role_data role = (if truthy role then required_string role else Some ''member'')"

text \<open>\<^verbatim>\<open>POST /memberships\<close>: registered without the guard.\<close>

definition post_memberships ::
  "runtime \<Rightarrow> database \<Rightarrow> nat \<Rightarrow> request \<Rightarrow> database \<times> response" where
  "post_memberships rt d now req =
     (case (parseInt rt (body req ''userId''), parseInt rt (body req ''groupId''),
            role_data (body req ''role'')) of
        (Some uid, Some gid, Some role) \<Rightarrow>
          (case membership_create d now uid gid role of
             None \<Rightarrow> (d, Response 500 (ErrorBody ''Failed to create membership''))
           | Some (membership, d') \<Rightarrow> (d', Response 201 (MembershipBody membership)))
      | _ \<Rightarrow> (d, Response 500 (ErrorBody ''Failed to create membership'')))"

text \<open>\<^verbatim>\<open>DELETE /memberships/:membershipId\<close>.\<close>

definition delete_memberships ::
  "runtime \<Rightarrow> database \<Rightarrow> request \<Rightarrow> database \<times> response" where
  "delete_memberships rt d req =
     (case authMiddleware rt req of
        Inl r \<Rightarrow> (d, r)
      | Inr caller \<Rightarrow>
          (case parseInt rt (JStr (param req)) of
             None \<Rightarrow> (d, Response 500 (ErrorBody ''Failed to remove member''))
           | Some membershipId \<Rightarrow>
               (case membership_findUnique d membershipId of
                  None \<Rightarrow> (d, Response 404 (ErrorBody ''Membership not found''))
                | Some membership \<Rightarrow>
                    let isOwnMembership = (m_userId membership = userId caller);
                        forbidden =
                          (\<not> isOwnMembership \<and>
                           (case membership_findUnique_userId_groupId d (userId caller)
                                   (m_groupId membership) of
                              None \<Rightarrow> True
                            | Some userMembership \<Rightarrow> m_role userMembership \<noteq> ''admin''))
                    in
                      if forbidden
                      then (d, Response 403 (ErrorBody ''Only group admins can remove other members''))
                      else
                        let d1 = payment_deleteMany_userId_groupId d (m_userId membership)
                                   (m_groupId membership)
                        in (case membership_delete d1 membershipId of
                              None \<Rightarrow> (d1, Response 500 (ErrorBody ''Failed to remove member''))
                            | Some d2 \<Rightarrow>
                                (d2, Response 200 (MessageBody ''Member removed successfully''))))))"

section \<open>Cycle service\<close>

text \<open>
  The data of \<^verbatim>\<open>prisma.cycle.create\<close> in \<^verbatim>\<open>POST /groups/:groupId/cycles\<close>:
  \<^verbatim>\<open>startDate ? new Date(startDate) : null\<close>,
  \<^verbatim>\<open>recipientUserId ? Number(recipientUserId) : null\<close> and \<^verbatim>\<open>status || 'active'\<close>. The
  recipient column is nullable: a truthy value for which \<^verbatim>\<open>Number\<close> gives \<^verbatim>\<open>NaN\<close> is stored
  as \<^verbatim>\<open>null\<close>.
\<close>

definition date_data :: "runtime \<Rightarrow> json \<Rightarrow> nat option option" where
  "date_data rt v =
     (if truthy v then (case newDate rt v of None \<Rightarrow> None | Some t \<Rightarrow> Some (Some t))
      else Some None)"

definition recipient_data :: "runtime \<Rightarrow> json \<Rightarrow> int option option" where
  "recipient_data rt recipientUserId =
     (if truthy recipientUserId
      then nullable_int (toNumber rt recipientUserId) (toNumber_isNaN rt recipientUserId)
      else Some None)"

definition status_data :: "json \<Rightarrow> string option" where
  "status_data status' = (if truthy status' then required_string status' else Some ''active'')"

text \<open>\<^verbatim>\<open>theGroup?.contribution || 100\<close>: \<^verbatim>\<open>null\<close> and \<^verbatim>\<open>0\<close> are both falsy.\<close>

definition groupContribution :: "Group option \<Rightarrow> real" where
  "groupContribution theGroup =
     (case theGroup of
        None \<Rightarrow> 100
      | Some g \<Rightarrow> (case g_contribution g of
                     None \<Rightarrow> 100
                   | Some x \<Rightarrow> if x \<noteq> 0 then x else 100))"

definition post_groups_cycles ::
  "runtime \<Rightarrow> database \<Rightarrow> nat \<Rightarrow> request \<Rightarrow> database \<times> response" where
  "post_groups_cycles rt d now req =
     (case authMiddleware rt req of
        Inl r \<Rightarrow> (d, r)
      | Inr caller \<Rightarrow>
          (case parseInt rt (JStr (param req)) of
             None \<Rightarrow> (d, Response 500 (ErrorBody ''Failed to create cycle''))
           | Some groupIdNum \<Rightarrow>
               (case membership_findUnique_userId_groupId d (userId caller) groupIdNum of
                  None \<Rightarrow> (d, Response 403 (ErrorBody ''You are not a member of this group.''))
                | Some membership \<Rightarrow>
                    if m_role membership \<noteq> ''admin''
                    then (d, Response 403 (ErrorBody ''Only admins can create cycles.''))
                    else
                      (case (toNumber rt (body req ''cycleIndex''),
                             date_data rt (body req ''startDate''),
                             date_data rt (body req ''endDate''),
                             recipient_data rt (body req ''recipientUserId''),
                             status_data (body req ''status'')) of
                         (Some cycleIndex, Some startDate, Some endDate, Some recipientUserId,
                          Some status') \<Rightarrow>
                           (case cycle_create d now groupIdNum cycleIndex startDate endDate
                                   recipientUserId status' of
                              None \<Rightarrow> (d, Response 500 (ErrorBody ''Failed to create cycle''))
                            | Some (newCycle, d1) \<Rightarrow>
                                let memberships' = membership_findMany_groupId d1 groupIdNum;
                                    theGroup = group_findUnique d1 groupIdNum;
                                    paymentsData =
                                      map (\<lambda>member. (c_id newCycle, m_userId member,
                                                      groupContribution theGroup)) memberships'
                                in (case payment_createMany d1 paymentsData of
                                      None \<Rightarrow>
                                        (d1, Response 500 (ErrorBody ''Failed to create cycle''))
                                    | Some d2 \<Rightarrow>
                                        (d2, Response 201 (CycleCreatedBody newCycle
                                           ''Cycle and payment records created successfully.''))))
                       | _ \<Rightarrow> (d, Response 500 (ErrorBody ''Failed to create cycle''))))))"

text \<open>
  \<^verbatim>\<open>PUT /cycles/:cycleId\<close>. The data of the update:
  \<^verbatim>\<open>recipientUserId: recipientUserId ? parseInt(recipientUserId.toString(), 10) : null\<close> and
  \<^verbatim>\<open>status: status || undefined\<close>. (\<^verbatim>\<open>parseInt\<close> converts its argument to a string itself,
  so \<^verbatim>\<open>parseInt(v.toString(), 10)\<close> is \<^verbatim>\<open>parseInt(v, 10)\<close> on a truthy primitive.)
\<close>

definition recipient_field :: "runtime \<Rightarrow> json \<Rightarrow> int option option" where
  "recipient_field rt recipientUserId =
     (if truthy recipientUserId
      then (case parseInt rt recipientUserId of None \<Rightarrow> None | Some r \<Rightarrow> Some (Some r))
      else Some None)"

definition status_field :: "json \<Rightarrow> string field option" where
  "status_field status' =
     (if truthy status' then (case required_string status' of None \<Rightarrow> None | Some s \<Rightarrow> Some (Put s))
      else Some Keep)"

definition summary :: "User \<Rightarrow> UserSummary" where
  "summary u = \<lparr>s_id = u_id u, s_name = u_name u, s_email = u_email u\<rparr>"

definition put_cycles ::
  "runtime \<Rightarrow> database \<Rightarrow> request \<Rightarrow> database \<times> response" where
  "put_cycles rt d req =
     (case authMiddleware rt req of
        Inl r \<Rightarrow> (d, r)
      | Inr caller \<Rightarrow>
          (case parseInt rt (JStr (param req)) of
             None \<Rightarrow> (d, Response 500 (ErrorBody ''Failed to update cycle''))
           | Some cycleId \<Rightarrow>
               (case cycle_findUnique d cycleId of
                  None \<Rightarrow> (d, Response 404 (ErrorBody ''Cycle not found''))
                | Some cycle \<Rightarrow>
                    (case membership_findUnique_userId_groupId d (userId caller) (c_groupId cycle) of
                       None \<Rightarrow> (d, Response 403 (ErrorBody ''Only group admins can update cycles''))
                     | Some membership \<Rightarrow>
                         if m_role membership \<noteq> ''admin''
                         then (d, Response 403 (ErrorBody ''Only group admins can update cycles''))
                         else
                           (case recipient_field rt (body req ''recipientUserId'') of
                              None \<Rightarrow> (d, Response 500 (ErrorBody ''Failed to update cycle''))
                            | Some recipientUserId \<Rightarrow>
                                if (case recipientUserId of
                                      None \<Rightarrow> False
                                    | Some r \<Rightarrow>
                                        membership_findUnique_userId_groupId d r (c_groupId cycle)
                                          = None)
                                then (d, Response 400
                                           (ErrorBody ''Recipient must be a member of the group''))
                                else
                                  (case status_field (body req ''status'') of
                                     None \<Rightarrow> (d, Response 500 (ErrorBody ''Failed to update cycle''))
                                   | Some status' \<Rightarrow>
                                       (case cycle_update d cycleId (Put recipientUserId) status' of
                                          None \<Rightarrow>
                                            (d, Response 500 (ErrorBody ''Failed to update cycle''))
                                        | Some (updatedCycle, d') \<Rightarrow>
                                            (d', Response 200 (CycleBody updatedCycle
                                               (group_findUnique d' (c_groupId updatedCycle))
                                               (case c_recipientUserId updatedCycle of
                                                  None \<Rightarrow> None
                                                | Some u \<Rightarrow>
                                                    map_option summary (user_findUnique d' u)))))))))))"

section \<open>Notions used to state the properties\<close>

text \<open>
  The role of a user in a group: the role of the Membership row of the pair, which
  \<^verbatim>\<open>@@unique([userId, groupId])\<close> makes unique; \<open>None\<close> when the user is no member.
\<close>

definition role_in :: "database \<Rightarrow> int \<Rightarrow> int \<Rightarrow> string option" where
  "role_in d uid gid = map_option m_role (membership_findUnique_userId_groupId d uid gid)"

text \<open>
  The store accepts the data of a group update: the name is a string or absent, the
  description and the frequency are strings, \<^verbatim>\<open>null\<close> or absent, and \<open>maxMembers\<close> is falsy,
  \<^verbatim>\<open>NaN\<close> or a number that the column takes. Every contribution is accepted.
\<close>

definition group_data_accepted :: "runtime \<Rightarrow> request \<Rightarrow> bool" where
  "group_data_accepted rt req =
     (string_field (body req ''name'') \<noteq> None
      \<and> nullable_string_field (body req ''description'') \<noteq> None
      \<and> nullable_string_field (body req ''frequency'') \<noteq> None
      \<and> maxMembers_data rt (body req ''maxMembers'') \<noteq> None)"

text \<open>The users whose payments a response of \<^verbatim>\<open>GET /cycles/:cycleId/payments\<close> lists.\<close>

definition listed_users :: "response \<Rightarrow> int list" where
  "listed_users r =
     (case content r of PaymentsBody ps \<Rightarrow> map (\<lambda>(p, u, c). p_userId p) ps | _ \<Rightarrow> [])"

text \<open>
  The store accepts the data of a new cycle: the index is a number that the column takes,
  the dates are valid or falsy, the recipient is falsy, \<^verbatim>\<open>NaN\<close> or an existing user, the
  status is a string or falsy.
\<close>

definition cycle_data_accepted :: "runtime \<Rightarrow> database \<Rightarrow> request \<Rightarrow> bool" where
  "cycle_data_accepted rt d req =
     (toNumber rt (body req ''cycleIndex'') \<noteq> None
      \<and> date_data rt (body req ''startDate'') \<noteq> None
      \<and> date_data rt (body req ''endDate'') \<noteq> None
      \<and> (case recipient_data rt (body req ''recipientUserId'') of
            None \<Rightarrow> False
          | Some None \<Rightarrow> True
          | Some (Some r) \<Rightarrow> user_findUnique d r \<noteq> None)
      \<and> status_data (body req ''status'') \<noteq> None)"

text \<open>The foreign key of \<^verbatim>\<open>Membership.userId\<close>, for the members of one group.\<close>

definition members_exist :: "database \<Rightarrow> int \<Rightarrow> bool" where
  "members_exist d gid =
     list_all (\<lambda>m. user_findUnique d (m_userId m) \<noteq> None) (membership_findMany_groupId d gid)"

text \<open>
  The store accepts the data of a cycle update: a truthy \<open>recipientUserId\<close> parses to a
  member of the group who is a user, and the status is a string or falsy.
\<close>

definition cycle_update_accepted :: "runtime \<Rightarrow> database \<Rightarrow> int \<Rightarrow> request \<Rightarrow> bool" where
  "cycle_update_accepted rt d gid req =
     ((case recipient_field rt (body req ''recipientUserId'') of
         None \<Rightarrow> False
       | Some None \<Rightarrow> True
       | Some (Some r) \<Rightarrow> role_in d r gid \<noteq> None \<and> user_findUnique d r \<noteq> None)
      \<and> status_field (body req ''status'') \<noteq> None)"

section \<open>A concrete runtime and store for example runs\<close>

text \<open>
  \<open>test_runtime\<close> implements the decimal fragment of the library functions: on a string of
  decimal digits (with leading spaces and a sign, for \<open>parseInt\<close>) and on a whole number it
  returns what JavaScript returns, and it rejects what does not fit a 32-bit \<^verbatim>\<open>Int\<close>
  column. A string that holds no decimal numeral (for \<open>parseInt\<close> and \<open>parseFloat\<close>: that
  does not start with one) parses to \<^verbatim>\<open>NaN\<close>. Dates are given as epoch numbers, tokens are
  looked up in a table, and \<open>toLowerCase\<close> maps the ASCII capitals. Fractions, exponents,
  hexadecimal numbers, numerals with spaces around them and date strings are outside this
  fragment; the example requests stay inside.
\<close>

definition digit_value :: "char \<Rightarrow> nat option" where
  "digit_value c =
     map_of [(CHR ''0'', 0), (CHR ''1'', 1), (CHR ''2'', 2), (CHR ''3'', 3), (CHR ''4'', 4),
             (CHR ''5'', 5), (CHR ''6'', 6), (CHR ''7'', 7), (CHR ''8'', 8), (CHR ''9'', 9)] c"

fun decimal :: "nat \<Rightarrow> string \<Rightarrow> nat" where
  "decimal acc [] = acc"
| "decimal acc (c # cs) =
     (case digit_value c of None \<Rightarrow> acc | Some k \<Rightarrow> decimal (10 * acc + k) cs)"

definition unsigned_prefix :: "string \<Rightarrow> int option" where
  "unsigned_prefix s =
     (case s of
        [] \<Rightarrow> None
      | c # cs \<Rightarrow> if digit_value c = None then None else Some (int (decimal 0 s)))"

definition decimal_prefix :: "string \<Rightarrow> int option" where
  "decimal_prefix s =
     (case dropWhile (\<lambda>c. c = CHR '' '') s of
        [] \<Rightarrow> None
      | c # cs \<Rightarrow>
          if c = CHR ''-'' then map_option uminus (unsigned_prefix cs)
          else if c = CHR ''+'' then unsigned_prefix cs
          else unsigned_prefix (c # cs))"

definition int32 :: "int \<Rightarrow> int option" where
  "int32 n = (if - 2147483648 \<le> n \<and> n \<le> 2147483647 then Some n else None)"

definition test_parseInt :: "json \<Rightarrow> int option" where
  "test_parseInt v =
     (case v of
        JStr s \<Rightarrow> (case decimal_prefix s of None \<Rightarrow> None | Some n \<Rightarrow> int32 n)
      | JNum r \<Rightarrow> int32 (if 0 \<le> r then \<lfloor>r\<rfloor> else \<lceil>r\<rceil>)
      | _ \<Rightarrow> None)"

definition test_parseInt_isNaN :: "json \<Rightarrow> bool" where
  "test_parseInt_isNaN v =
     (case v of JStr s \<Rightarrow> decimal_prefix s = None | JNum r \<Rightarrow> False | _ \<Rightarrow> True)"

definition test_parseFloat :: "json \<Rightarrow> real option" where
  "test_parseFloat v =
     (case v of
        JStr s \<Rightarrow> map_option real_of_int (decimal_prefix s)
      | JNum r \<Rightarrow> Some r
      | _ \<Rightarrow> None)"

definition test_toNumber :: "json \<Rightarrow> int option" where
  "test_toNumber v =
     (case v of
        JUndefined \<Rightarrow> None
      | JNull \<Rightarrow> Some 0
      | JBool b \<Rightarrow> Some (if b then 1 else 0)
      | JNum r \<Rightarrow> if real_of_int \<lfloor>r\<rfloor> = r then int32 \<lfloor>r\<rfloor> else None
      | JStr s \<Rightarrow> if list_all (\<lambda>c. digit_value c \<noteq> None) s then int32 (int (decimal 0 s))
                  else None)"

definition test_toNumber_isNaN :: "json \<Rightarrow> bool" where
  "test_toNumber_isNaN v =
     (case v of
        JUndefined \<Rightarrow> True
      | JStr s \<Rightarrow> \<not> list_all (\<lambda>c. digit_value c \<noteq> None) s
      | _ \<Rightarrow> False)"

definition test_newDate :: "json \<Rightarrow> nat option" where
  "test_newDate v =
     (case v of
        JNum r \<Rightarrow> if 0 \<le> r \<and> real_of_int \<lfloor>r\<rfloor> = r then Some (nat \<lfloor>r\<rfloor>) else None
      | _ \<Rightarrow> None)"

definition test_jwt_verify :: "string \<Rightarrow> JwtPayload option" where
  "test_jwt_verify token =
     map_of [(''tok-alice'', \<lparr>userId = 1, email = ''alice@x.org''\<rparr>),
             (''tok-bob'', \<lparr>userId = 2, email = ''bob@x.org''\<rparr>),
             (''tok-carol'', \<lparr>userId = 3, email = ''carol@x.org''\<rparr>),
             (''tok-dave'', \<lparr>userId = 4, email = ''dave@x.org''\<rparr>)] token"

definition test_toLowerCase :: "string \<Rightarrow> string" where
  "test_toLowerCase s =
     map (\<lambda>c. case map_of (zip ''ABCDEFGHIJKLMNOPQRSTUVWXYZ'' ''abcdefghijklmnopqrstuvwxyz'') c of
                 None \<Rightarrow> c
               | Some l \<Rightarrow> l) s"

definition test_runtime :: runtime where
  "test_runtime =
     \<lparr>parseInt = test_parseInt, parseInt_isNaN = test_parseInt_isNaN,
      parseFloat = test_parseFloat, toNumber = test_toNumber,
      toNumber_isNaN = test_toNumber_isNaN, newDate = test_newDate,
      jwt_verify = test_jwt_verify, toLowerCase = test_toLowerCase\<rparr>"

text \<open>
  The example store. Alice administers both groups; Bob and Carol are members of group 1,
  Dave of group 2 only. Group 2 has the contribution \<open>0\<close>. Cycle 1 of group 1 is completed,
  with Bob as recipient, and Alice has paid.
\<close>

definition alice :: User where
  "alice = \<lparr>u_id = 1, u_email = ''alice@x.org'', u_password = ''pw-a'', u_name = Some ''Alice'',
            u_phone = None, u_pushToken = None, u_createdAt = 1, u_updatedAt = 1\<rparr>"

definition bob :: User where
  "bob = \<lparr>u_id = 2, u_email = ''bob@x.org'', u_password = ''pw-b'', u_name = Some ''Bob'',
          u_phone = None, u_pushToken = None, u_createdAt = 2, u_updatedAt = 2\<rparr>"

definition carol :: User where
  "carol = \<lparr>u_id = 3, u_email = ''carol@x.org'', u_password = ''pw-c'', u_name = Some ''Carol'',
            u_phone = None, u_pushToken = None, u_createdAt = 3, u_updatedAt = 3\<rparr>"

definition dave :: User where
  "dave = \<lparr>u_id = 4, u_email = ''dave@x.org'', u_password = ''pw-d'', u_name = None,
           u_phone = None, u_pushToken = None, u_createdAt = 4, u_updatedAt = 4\<rparr>"

definition group1 :: Group where
  "group1 = \<lparr>g_id = 1, g_name = ''Savers'', g_description = Some ''First'',
             g_contribution = Some 50, g_frequency = Some ''monthly'', g_maxMembers = Some 10,
             g_createdAt = 5, g_updatedAt = 5\<rparr>"

definition group2 :: Group where
  "group2 = \<lparr>g_id = 2, g_name = ''Zero'', g_description = None, g_contribution = Some 0,
             g_frequency = None, g_maxMembers = None, g_createdAt = 6, g_updatedAt = 6\<rparr>"

definition cycle1 :: Cycle where
  "cycle1 = \<lparr>c_id = 1, c_groupId = 1, c_cycleIndex = 1, c_startDate = None, c_endDate = None,
             c_recipientUserId = Some 2, c_status = ''completed'', c_createdAt = 7\<rparr>"

definition db0 :: database where
  "db0 =
     \<lparr>users = [alice, bob, carol, dave],
      groups = [group1, group2],
      memberships =
        [\<lparr>m_id = 1, m_userId = 1, m_groupId = 1, m_role = ''admin'', m_joinedAt = 5\<rparr>,
         \<lparr>m_id = 2, m_userId = 2, m_groupId = 1, m_role = ''member'', m_joinedAt = 5\<rparr>,
         \<lparr>m_id = 3, m_userId = 3, m_groupId = 1, m_role = ''member'', m_joinedAt = 5\<rparr>,
         \<lparr>m_id = 4, m_userId = 1, m_groupId = 2, m_role = ''admin'', m_joinedAt = 6\<rparr>,
         \<lparr>m_id = 5, m_userId = 4, m_groupId = 2, m_role = ''member'', m_joinedAt = 6\<rparr>],
      cycles = [cycle1],
      payments =
        [\<lparr>p_id = 1, p_cycleId = 1, p_userId = 1, p_amount = 50, p_paid = True, p_paidAt = Some 8\<rparr>,
         \<lparr>p_id = 2, p_cycleId = 1, p_userId = 2, p_amount = 50, p_paid = False, p_paidAt = None\<rparr>,
         \<lparr>p_id = 3, p_cycleId = 1, p_userId = 3, p_amount = 50, p_paid = False, p_paidAt = None\<rparr>],
      user_seq = 5, group_seq = 3, membership_seq = 6, cycle_seq = 2, payment_seq = 4\<rparr>"

text \<open>A request with the given bearer token, route parameter and body fields.\<close>

definition body_of :: "(string \<times> json) list \<Rightarrow> string \<Rightarrow> json" where
  "body_of kvs k = (case map_of kvs k of None \<Rightarrow> JUndefined | Some v \<Rightarrow> v)"

definition bearer :: "string \<Rightarrow> string \<Rightarrow> (string \<times> json) list \<Rightarrow> request" where
  "bearer token p kvs =
     \<lparr>authorization = Some (''Bearer '' @ token), param = p, body = body_of kvs\<rparr>"

definition anonymous :: "string \<Rightarrow> (string \<times> json) list \<Rightarrow> request" where
  "anonymous p kvs = \<lparr>authorization = None, param = p, body = body_of kvs\<rparr>"

section \<open>Evaluation rules and general lemmas\<close>

lemmas test_defs = test_runtime_def test_parseInt_def test_parseInt_isNaN_def
  test_parseFloat_def test_toNumber_def test_toNumber_isNaN_def test_newDate_def
  test_jwt_verify_def test_toLowerCase_def decimal_prefix_def unsigned_prefix_def
  digit_value_def int32_def bearer_def anonymous_def body_of_def

lemmas db_defs = db0_def alice_def bob_def carol_def dave_def group1_def group2_def cycle1_def

lemmas find_defs = user_findUnique_def group_findUnique_def membership_findUnique_def
  membership_findUnique_userId_groupId_def membership_findMany_groupId_def cycle_findUnique_def
  payment_findUnique_def payment_findMany_cycleId_def user_findUnique_email_def

lemma find_update_where:
  assumes "\<And>x. P (f x) = P x"
  shows "find P (update_where P f xs) = map_option f (find P xs)"
  using assms by (induction xs) (simp_all add: update_where_def)

subsection \<open>Example requests\<close>

lemma auth_alice [simp]:
  "authMiddleware test_runtime (bearer ''tok-alice'' p kvs) = Inr \<lparr>userId = 1, email = ''alice@x.org''\<rparr>"
  by (simp add: authMiddleware_def test_defs)

lemma auth_bob [simp]:
  "authMiddleware test_runtime (bearer ''tok-bob'' p kvs) = Inr \<lparr>userId = 2, email = ''bob@x.org''\<rparr>"
  by (simp add: authMiddleware_def test_defs)

lemma auth_dave [simp]:
  "authMiddleware test_runtime (bearer ''tok-dave'' p kvs) = Inr \<lparr>userId = 4, email = ''dave@x.org''\<rparr>"
  by (simp add: authMiddleware_def test_defs)

lemma param_bearer [simp]: "param (bearer t p kvs) = p"
  by (simp add: bearer_def)

lemma body_bearer [simp]: "body (bearer t p kvs) = body_of kvs"
  by (simp add: bearer_def)

lemma parseInt_1 [simp]: "parseInt test_runtime (JStr ''1'') = Some 1"
  by (simp add: test_defs)

lemma parseInt_2 [simp]: "parseInt test_runtime (JStr ''2'') = Some 2"
  by (simp add: test_defs)

section \<open>Marking a payment as paid\<close>

text \<open>
  C6. For every payment \<open>p\<close> with key \<open>k\<close> and every request that passes the guard, whoever
  the caller is (no premise relates \<open>caller\<close> to the payment's user or to the group that
  owns it), \<^verbatim>\<open>PUT /payments/k/pay\<close> answers 200 and stores \<open>paid = True\<close> and
  \<open>paidAt = now\<close> in that row; every other row and table is as before. The premise on
  \<open>p\<close> allows a payment that is paid already: its \<open>paidAt\<close> is overwritten.
\<close>

theorem put_payments_pay_unconditional:
  assumes "authMiddleware rt req = Inr caller"
    and "parseInt rt (JStr (param req)) = Some k"
    and "payment_findUnique d k = Some p"
  shows "snd (put_payments_pay rt d now req)
           = Response 200 (PaymentBody (p\<lparr>p_paid := True, p_paidAt := Some now\<rparr>))
       \<and> payment_findUnique (fst (put_payments_pay rt d now req)) k
           = Some (p\<lparr>p_paid := True, p_paidAt := Some now\<rparr>)
       \<and> payments (fst (put_payments_pay rt d now req))
           = map (\<lambda>x. if p_id x = k then x\<lparr>p_paid := True, p_paidAt := Some now\<rparr> else x)
               (payments d)
       \<and> (fst (put_payments_pay rt d now req))\<lparr>payments := payments d\<rparr> = d"
proof -
  let ?f = "\<lambda>x. x\<lparr>p_paid := True, p_paidAt := Some now\<rparr>"
  have run: "put_payments_pay rt d now req
      = (d\<lparr>payments := update_where (\<lambda>x. p_id x = k) ?f (payments d)\<rparr>,
         Response 200 (PaymentBody (?f p)))"
    using assms by (simp add: put_payments_pay_def payment_update_def)
  have "find (\<lambda>x. p_id x = k) (update_where (\<lambda>x. p_id x = k) ?f (payments d))
      = map_option ?f (find (\<lambda>x. p_id x = k) (payments d))"
    by (rule find_update_where) simp
  with assms(3) have "payment_findUnique (fst (put_payments_pay rt d now req)) k = Some (?f p)"
    by (simp add: run payment_findUnique_def)
  then show ?thesis
    by (simp add: run update_where_def)
qed

text \<open>
  Dave, who is no member of group 1, marks Alice's payment 1, paid at time 8 already, at
  time 99.
\<close>

theorem put_payments_pay_unconditional_witness:
  "authMiddleware test_runtime (bearer ''tok-dave'' ''1'' [])
     = Inr \<lparr>userId = 4, email = ''dave@x.org''\<rparr>
   \<and> parseInt test_runtime (JStr (param (bearer ''tok-dave'' ''1'' []))) = Some 1
   \<and> payment_findUnique db0 1
       = Some \<lparr>p_id = 1, p_cycleId = 1, p_userId = 1, p_amount = 50, p_paid = True,
               p_paidAt = Some 8\<rparr>
   \<and> payment_findUnique (fst (put_payments_pay test_runtime db0 99 (bearer ''tok-dave'' ''1'' []))) 1
       = Some \<lparr>p_id = 1, p_cycleId = 1, p_userId = 1, p_amount = 50, p_paid = True,
               p_paidAt = Some 99\<rparr>"
proof -
  have h1: "authMiddleware test_runtime (bearer ''tok-dave'' ''1'' [])
              = Inr \<lparr>userId = 4, email = ''dave@x.org''\<rparr>"
    by (simp add: authMiddleware_def test_defs)
  have h2: "parseInt test_runtime (JStr (param (bearer ''tok-dave'' ''1'' []))) = Some 1"
    by (simp add: test_defs)
  have h3: "payment_findUnique db0 1
      = Some \<lparr>p_id = 1, p_cycleId = 1, p_userId = 1, p_amount = 50, p_paid = True,
              p_paidAt = Some 8\<rparr>"
    by (simp add: db_defs find_defs)
  show ?thesis
    using put_payments_pay_unconditional [OF h1 h2 h3, of 99] h1 h2 h3 by simp
qed

section \<open>Updating a group\<close>

lemma put_groups_forbidden:
  assumes "authMiddleware rt req = Inr caller"
    and "parseInt rt (JStr (param req)) = Some gid"
    and "role_in d (userId caller) gid \<noteq> Some ''admin''"
  shows "put_groups rt d now req
           = (d, Response 403 (ErrorBody ''Only group admins can update the group''))"
  using assms by (simp add: put_groups_def role_in_def split: option.splits)

lemma put_groups_rejected:
  assumes "authMiddleware rt req = Inr caller"
    and "parseInt rt (JStr (param req)) = Some gid"
    and "role_in d (userId caller) gid = Some ''admin''"
    and "\<not> (group_findUnique d gid \<noteq> None \<and> group_data_accepted rt req)"
  shows "put_groups rt d now req = (d, Response 500 (ErrorBody ''Failed to update group''))"
proof -
  obtain m where m: "membership_findUnique_userId_groupId d (userId caller) gid = Some m"
    "m_role m = ''admin''"
    using assms(3) by (auto simp add: role_in_def)
  show ?thesis
    unfolding put_groups_def
    using assms(1,2,4) m
    by (auto simp add: group_data_accepted_def group_update_def split: option.splits)
qed

lemma put_groups_admin_run:
  assumes "authMiddleware rt req = Inr caller"
    and "parseInt rt (JStr (param req)) = Some gid"
    and "role_in d (userId caller) gid = Some ''admin''"
    and "group_findUnique d gid = Some g"
    and "string_field (body req ''name'') = Some n"
    and "nullable_string_field (body req ''description'') = Some ds"
    and "nullable_string_field (body req ''frequency'') = Some f"
    and "maxMembers_data rt (body req ''maxMembers'') = Some mx"
  shows "put_groups rt d now req
           = (d\<lparr>groups := update_where (\<lambda>x. g_id x = gid)
                  (\<lambda>g. g\<lparr>g_name := assign n (g_name g),
                          g_description := assign ds (g_description g),
                          g_contribution :=
                            assign (contribution_data rt (body req ''contribution''))
                              (g_contribution g),
                          g_frequency := assign f (g_frequency g),
                          g_maxMembers := assign mx (g_maxMembers g),
                          g_updatedAt := now\<rparr>) (groups d)\<rparr>,
              Response 200 (GroupBody
                (g\<lparr>g_name := assign n (g_name g),
                   g_description := assign ds (g_description g),
                   g_contribution :=
                     assign (contribution_data rt (body req ''contribution''))
                       (g_contribution g),
                   g_frequency := assign f (g_frequency g),
                   g_maxMembers := assign mx (g_maxMembers g),
                   g_updatedAt := now\<rparr>)))"
  using assms
  by (auto simp add: put_groups_def role_in_def group_update_def Let_def split: option.splits)

lemma assign_string_field:
  "string_field v = Some n \<Longrightarrow> assign n old = (case v of JStr s \<Rightarrow> s | _ \<Rightarrow> old)"
  by (auto simp add: string_field_def split: json.splits)

lemma assign_nullable_string_field:
  "nullable_string_field v = Some n \<Longrightarrow>
     assign n old = (case v of JUndefined \<Rightarrow> old | JStr s \<Rightarrow> Some s | _ \<Rightarrow> None)"
  by (auto simp add: nullable_string_field_def split: json.splits)

lemma assign_contribution_data:
  "assign (contribution_data rt v) old = (if truthy v then parseFloat rt v else None)"
  by (simp add: contribution_data_def)

lemma assign_maxMembers_data:
  "maxMembers_data rt v = Some c \<Longrightarrow>
     assign c old = (if truthy v then parseInt rt v else None)"
  by (auto simp add: maxMembers_data_def nullable_int_def split: if_splits option.splits)

text \<open>
  What an accepted update does: every group row with the key gets the data, described
  field by field, and the response carries the updated group.
\<close>

lemma put_groups_accepted:
  fixes rt :: runtime and req :: request and now :: nat
  assumes "authMiddleware rt req = Inr caller"
    and "parseInt rt (JStr (param req)) = Some gid"
    and "role_in d (userId caller) gid = Some ''admin''"
    and "group_findUnique d gid = Some g"
    and "group_data_accepted rt req"
  defines "U \<equiv> \<lambda>g. g\<lparr>g_name := (case body req ''name'' of JStr s \<Rightarrow> s | _ \<Rightarrow> g_name g),
                      g_description :=
                        (case body req ''description'' of
                           JUndefined \<Rightarrow> g_description g | JStr s \<Rightarrow> Some s | _ \<Rightarrow> None),
                      g_contribution :=
                        (if truthy (body req ''contribution'')
                         then parseFloat rt (body req ''contribution'') else None),
                      g_frequency :=
                        (case body req ''frequency'' of
                           JUndefined \<Rightarrow> g_frequency g | JStr s \<Rightarrow> Some s | _ \<Rightarrow> None),
                      g_maxMembers :=
                        (if truthy (body req ''maxMembers'')
                         then parseInt rt (body req ''maxMembers'') else None),
                      g_updatedAt := now\<rparr>"
  shows "put_groups rt d now req
           = (d\<lparr>groups := map (\<lambda>x. if g_id x = gid then U x else x) (groups d)\<rparr>,
              Response 200 (GroupBody (U g)))"
    and "group_findUnique (fst (put_groups rt d now req)) gid = Some (U g)"
proof -
  from assms(5) obtain n ds f mx where acc:
    "string_field (body req ''name'') = Some n"
    "nullable_string_field (body req ''description'') = Some ds"
    "nullable_string_field (body req ''frequency'') = Some f"
    "maxMembers_data rt (body req ''maxMembers'') = Some mx"
    by (auto simp add: group_data_accepted_def)
  have U: "(\<lambda>g. g\<lparr>g_name := assign n (g_name g),
                   g_description := assign ds (g_description g),
                   g_contribution :=
                     assign (contribution_data rt (body req ''contribution''))
                       (g_contribution g),
                   g_frequency := assign f (g_frequency g),
                   g_maxMembers := assign mx (g_maxMembers g),
                   g_updatedAt := now\<rparr>) = U"
    unfolding U_def
    by (simp only: assign_string_field [OF acc(1)] assign_nullable_string_field [OF acc(2)]
        assign_contribution_data assign_nullable_string_field [OF acc(3)]
        assign_maxMembers_data [OF acc(4)])
  show run: "put_groups rt d now req
           = (d\<lparr>groups := map (\<lambda>x. if g_id x = gid then U x else x) (groups d)\<rparr>,
              Response 200 (GroupBody (U g)))"
    using put_groups_admin_run [OF assms(1-4) acc, of now]
    by (simp add: update_where_def fun_cong [OF U])
  have "find (\<lambda>x. g_id x = gid) (update_where (\<lambda>x. g_id x = gid) U (groups d))
      = map_option U (find (\<lambda>x. g_id x = gid) (groups d))"
    by (rule find_update_where) (simp add: U_def)
  with assms(4) show "group_findUnique (fst (put_groups rt d now req)) gid = Some (U g)"
    by (simp add: run group_findUnique_def update_where_def)
qed

text \<open>
  C2, as amended. For every group \<open>gid\<close> and every caller that passes the guard:
  \<^item> a caller whose role in the group is not \<open>admin\<close> (no Membership, or another role) gets
    403 and the whole store, the Group record included, is left as it was;
  \<^item> for an admin whose data the store accepts, the update answers 200 with the updated
    group, and the store afterwards is the previous one with the data written into the
    Group record;
  \<^item> for an admin whose data the store rejects, it answers 500 and the store is left as it
    was.

  So the update succeeds exactly when the caller is an admin of the group and the store
  accepts the data.
\<close>

theorem put_groups_succeeds_iff_admin_and_accepted:
  fixes rt :: runtime and req :: request and d :: database and now :: nat and gid :: int
  assumes "authMiddleware rt req = Inr caller"
    and "parseInt rt (JStr (param req)) = Some gid"
  defines "U \<equiv> \<lambda>g. g\<lparr>g_name := (case body req ''name'' of JStr s \<Rightarrow> s | _ \<Rightarrow> g_name g),
                      g_description :=
                        (case body req ''description'' of
                           JUndefined \<Rightarrow> g_description g | JStr s \<Rightarrow> Some s | _ \<Rightarrow> None),
                      g_contribution :=
                        (if truthy (body req ''contribution'')
                         then parseFloat rt (body req ''contribution'') else None),
                      g_frequency :=
                        (case body req ''frequency'' of
                           JUndefined \<Rightarrow> g_frequency g | JStr s \<Rightarrow> Some s | _ \<Rightarrow> None),
                      g_maxMembers :=
                        (if truthy (body req ''maxMembers'')
                         then parseInt rt (body req ''maxMembers'') else None),
                      g_updatedAt := now\<rparr>"
  shows "(role_in d (userId caller) gid \<noteq> Some ''admin'' \<longrightarrow>
            put_groups rt d now req
              = (d, Response 403 (ErrorBody ''Only group admins can update the group'')))
       \<and> (role_in d (userId caller) gid = Some ''admin'' \<and> group_findUnique d gid = Some g
            \<and> group_data_accepted rt req \<longrightarrow>
            put_groups rt d now req
              = (d\<lparr>groups := map (\<lambda>x. if g_id x = gid then U x else x) (groups d)\<rparr>,
                 Response 200 (GroupBody (U g)))
            \<and> group_findUnique (fst (put_groups rt d now req)) gid = Some (U g))
       \<and> (role_in d (userId caller) gid = Some ''admin''
            \<and> \<not> (group_findUnique d gid \<noteq> None \<and> group_data_accepted rt req) \<longrightarrow>
            put_groups rt d now req
              = (d, Response 500 (ErrorBody ''Failed to update group'')))
       \<and> (status (snd (put_groups rt d now req)) = 200)
           = (role_in d (userId caller) gid = Some ''admin'' \<and> group_findUnique d gid \<noteq> None
              \<and> group_data_accepted rt req)"
proof -
  have forbidden: "put_groups rt d now req
      = (d, Response 403 (ErrorBody ''Only group admins can update the group''))"
    if "role_in d (userId caller) gid \<noteq> Some ''admin''"
    using assms(1,2) that by (rule put_groups_forbidden)
  have rejected: "put_groups rt d now req
      = (d, Response 500 (ErrorBody ''Failed to update group''))"
    if "role_in d (userId caller) gid = Some ''admin''"
      and "\<not> (group_findUnique d gid \<noteq> None \<and> group_data_accepted rt req)"
    using assms(1,2) that by (rule put_groups_rejected)
  have accepted: "put_groups rt d now req
      = (d\<lparr>groups := map (\<lambda>x. if g_id x = gid then U x else x) (groups d)\<rparr>,
         Response 200 (GroupBody (U g')))
      \<and> group_findUnique (fst (put_groups rt d now req)) gid = Some (U g')"
    if "role_in d (userId caller) gid = Some ''admin''" and "group_findUnique d gid = Some g'"
      and "group_data_accepted rt req" for g'
    using put_groups_accepted [OF assms(1,2) that, of now] unfolding U_def by simp
  have iff: "(status (snd (put_groups rt d now req)) = 200)
      = (role_in d (userId caller) gid = Some ''admin'' \<and> group_findUnique d gid \<noteq> None
         \<and> group_data_accepted rt req)"
  proof (cases "role_in d (userId caller) gid = Some ''admin''")
    case False
    with forbidden show ?thesis by simp
  next
    case admin: True
    show ?thesis
    proof (cases "group_findUnique d gid \<noteq> None \<and> group_data_accepted rt req")
      case False
      with rejected [OF admin] admin show ?thesis by simp
    next
      case True
      then obtain g' where "group_findUnique d gid = Some g'" by auto
      with accepted [OF admin this] admin True show ?thesis by simp
    qed
  qed
  from forbidden rejected accepted iff show ?thesis by blast
qed

text \<open>
  C8, as amended. For every group update by an admin that the store accepts, the stored
  Group is the previous one with: \<open>name\<close>, \<open>description\<close> and \<open>frequency\<close> overwritten by the
  supplied value when one is supplied and kept when the field is omitted; \<open>contribution\<close> and
  \<open>maxMembers\<close> overwritten in every case, by the number that the supplied value parses to
  when it is truthy (whatever its sign: nothing checks \<open>contribution \<ge> 0\<close>), by \<open>null\<close> when
  it is truthy and parses to no number, and by \<open>null\<close> when it is omitted or falsy;
  \<open>updatedAt\<close> set to the time of the update. Nothing else in the store changes. An update
  that the store does not accept answers 500 and changes nothing.
\<close>

theorem put_groups_overwrites:
  assumes "authMiddleware rt req = Inr caller"
    and "parseInt rt (JStr (param req)) = Some gid"
    and "role_in d (userId caller) gid = Some ''admin''"
    and "group_findUnique d gid = Some g"
  shows "(group_data_accepted rt req \<longrightarrow>
            status (snd (put_groups rt d now req)) = 200
            \<and> group_findUnique (fst (put_groups rt d now req)) gid
                = Some (g\<lparr>g_name := (case body req ''name'' of JStr s \<Rightarrow> s | _ \<Rightarrow> g_name g),
                          g_description :=
                            (case body req ''description'' of
                               JUndefined \<Rightarrow> g_description g | JStr s \<Rightarrow> Some s | _ \<Rightarrow> None),
                          g_contribution :=
                            (if truthy (body req ''contribution'')
                             then parseFloat rt (body req ''contribution'') else None),
                          g_frequency :=
                            (case body req ''frequency'' of
                               JUndefined \<Rightarrow> g_frequency g | JStr s \<Rightarrow> Some s | _ \<Rightarrow> None),
                          g_maxMembers :=
                            (if truthy (body req ''maxMembers'')
                             then parseInt rt (body req ''maxMembers'') else None),
                          g_updatedAt := now\<rparr>)
            \<and> (fst (put_groups rt d now req))\<lparr>groups := groups d\<rparr> = d)
       \<and> (\<not> group_data_accepted rt req \<longrightarrow>
            put_groups rt d now req
              = (d, Response 500 (ErrorBody ''Failed to update group'')))"
proof (intro conjI impI)
  assume acc: "group_data_accepted rt req"
  note run = put_groups_accepted [OF assms acc, of now]
  show "status (snd (put_groups rt d now req)) = 200"
    by (simp add: run(1))
  show "group_findUnique (fst (put_groups rt d now req)) gid
      = Some (g\<lparr>g_name := (case body req ''name'' of JStr s \<Rightarrow> s | _ \<Rightarrow> g_name g),
                g_description :=
                  (case body req ''description'' of
                     JUndefined \<Rightarrow> g_description g | JStr s \<Rightarrow> Some s | _ \<Rightarrow> None),
                g_contribution :=
                  (if truthy (body req ''contribution'')
                   then parseFloat rt (body req ''contribution'') else None),
                g_frequency :=
                  (case body req ''frequency'' of
                     JUndefined \<Rightarrow> g_frequency g | JStr s \<Rightarrow> Some s | _ \<Rightarrow> None),
                g_maxMembers :=
                  (if truthy (body req ''maxMembers'')
                   then parseInt rt (body req ''maxMembers'') else None),
                g_updatedAt := now\<rparr>)"
    by (rule run(2))
  show "(fst (put_groups rt d now req))\<lparr>groups := groups d\<rparr> = d"
    by (simp add: run(1))
next
  assume "\<not> group_data_accepted rt req"
  then have "\<not> (group_findUnique d gid \<noteq> None \<and> group_data_accepted rt req)"
    by simp
  with assms(1-3) show "put_groups rt d now req
      = (d, Response 500 (ErrorBody ''Failed to update group''))"
    by (rule put_groups_rejected)
qed

lemma roles_db0:
  "role_in db0 1 1 = Some ''admin''" "role_in db0 2 1 = Some ''member''"
  "role_in db0 1 2 = Some ''admin''" "role_in db0 4 1 = None"
  by (simp_all add: role_in_def db_defs find_defs)

lemma groups_db0: "group_findUnique db0 1 = Some group1" "group_findUnique db0 2 = Some group2"
  by (simp_all add: db_defs find_defs)

lemma group_data_accepted_strings:
  "maxMembers_data rt (body_of kvs ''maxMembers'') \<noteq> None \<Longrightarrow>
   string_field (body_of kvs ''name'') \<noteq> None \<Longrightarrow>
   body_of kvs ''description'' = JUndefined \<Longrightarrow>
   body_of kvs ''frequency'' = JUndefined \<Longrightarrow>
   group_data_accepted rt (bearer t p kvs)"
  by (simp add: group_data_accepted_def nullable_string_field_def)

text \<open>
  Alice, admin of group 1, renames it: the name and \<open>updatedAt\<close> are written, the omitted
  description and frequency are kept. Bob, a plain member, is refused.
\<close>

theorem put_groups_succeeds_iff_admin_and_accepted_witness:
  "role_in db0 1 1 = Some ''admin''
   \<and> group_findUnique db0 1 = Some group1
   \<and> group_data_accepted test_runtime (bearer ''tok-alice'' ''1'' [(''name'', JStr ''Renamed'')])
   \<and> put_groups test_runtime db0 9 (bearer ''tok-alice'' ''1'' [(''name'', JStr ''Renamed'')])
       = (db0\<lparr>groups :=
                 [\<lparr>g_id = 1, g_name = ''Renamed'', g_description = Some ''First'',
                   g_contribution = None, g_frequency = Some ''monthly'', g_maxMembers = None,
                   g_createdAt = 5, g_updatedAt = 9\<rparr>,
                  group2]\<rparr>,
          Response 200 (GroupBody
            \<lparr>g_id = 1, g_name = ''Renamed'', g_description = Some ''First'',
              g_contribution = None, g_frequency = Some ''monthly'', g_maxMembers = None,
              g_createdAt = 5, g_updatedAt = 9\<rparr>))
   \<and> role_in db0 2 1 = Some ''member''
   \<and> put_groups test_runtime db0 9 (bearer ''tok-bob'' ''1'' [(''name'', JStr ''Renamed'')])
       = (db0, Response 403 (ErrorBody ''Only group admins can update the group''))"
proof -
  let ?a = "bearer ''tok-alice'' ''1'' [(''name'', JStr ''Renamed'')]"
  let ?b = "bearer ''tok-bob'' ''1'' [(''name'', JStr ''Renamed'')]"
  have acc: "group_data_accepted test_runtime ?a"
    by (rule group_data_accepted_strings)
      (simp_all add: body_of_def string_field_def maxMembers_data_def)
  have a: "authMiddleware test_runtime ?a = Inr \<lparr>userId = 1, email = ''alice@x.org''\<rparr>"
    and b: "authMiddleware test_runtime ?b = Inr \<lparr>userId = 2, email = ''bob@x.org''\<rparr>"
    and pa: "parseInt test_runtime (JStr (param ?a)) = Some 1"
    and pb: "parseInt test_runtime (JStr (param ?b)) = Some 1"
    by simp_all
  have gs: "groups db0 = [group1, group2]" "g_id group1 = 1" "g_id group2 = 2"
    by (simp_all add: db0_def group1_def group2_def)
  have ok: "put_groups test_runtime db0 9 ?a
       = (db0\<lparr>groups :=
                 [\<lparr>g_id = 1, g_name = ''Renamed'', g_description = Some ''First'',
                   g_contribution = None, g_frequency = Some ''monthly'', g_maxMembers = None,
                   g_createdAt = 5, g_updatedAt = 9\<rparr>,
                  group2]\<rparr>,
          Response 200 (GroupBody
            \<lparr>g_id = 1, g_name = ''Renamed'', g_description = Some ''First'',
              g_contribution = None, g_frequency = Some ''monthly'', g_maxMembers = None,
              g_createdAt = 5, g_updatedAt = 9\<rparr>))"
    using put_groups_succeeds_iff_admin_and_accepted
        [OF a pa, where d = db0 and g = group1 and now = 9]
      roles_db0 groups_db0 acc
    by (simp add: gs body_of_def) (simp add: group1_def)
  have forb: "put_groups test_runtime db0 9 ?b
       = (db0, Response 403 (ErrorBody ''Only group admins can update the group''))"
    using put_groups_succeeds_iff_admin_and_accepted
        [OF b pb, where d = db0 and g = group1 and now = 9] roles_db0
    by simp
  show ?thesis
    by (simp only: roles_db0 groups_db0 acc ok forb simp_thms)
qed

text \<open>
  C2 as stated fails: Alice is an admin of group 1, but her update with a number as name is
  rejected by the store: it answers 500 and nothing is written.
\<close>

theorem put_groups_admin_rejected_counterexample:
  "role_in db0 1 1 = Some ''admin''
   \<and> put_groups test_runtime db0 9 (bearer ''tok-alice'' ''1'' [(''name'', JNum 5)])
       = (db0, Response 500 (ErrorBody ''Failed to update group''))"
proof -
  let ?a = "bearer ''tok-alice'' ''1'' [(''name'', JNum 5)]"
  have a: "authMiddleware test_runtime ?a = Inr \<lparr>userId = 1, email = ''alice@x.org''\<rparr>"
    and pa: "parseInt test_runtime (JStr (param ?a)) = Some 1"
    by simp_all
  have role: "role_in db0 (userId \<lparr>userId = 1, email = ''alice@x.org''\<rparr>) 1 = Some ''admin''"
    by (simp add: roles_db0)
  have "\<not> group_data_accepted test_runtime ?a"
    by (simp add: group_data_accepted_def string_field_def body_of_def)
  then have "\<not> (group_findUnique db0 1 \<noteq> None \<and> group_data_accepted test_runtime ?a)"
    by simp
  from put_groups_rejected [OF a pa role this] roles_db0 show ?thesis
    by simp
qed

text \<open>
  Alice renames group 1 and sets a negative contribution; \<open>maxMembers\<close>, omitted, becomes
  \<open>null\<close>. With a contribution that is no number the update is accepted as well, and the
  contribution becomes \<open>null\<close>.
\<close>

theorem put_groups_overwrites_witness:
  "role_in db0 1 1 = Some ''admin''
   \<and> group_findUnique db0 1 = Some group1
   \<and> group_data_accepted test_runtime
        (bearer ''tok-alice'' ''1'' [(''name'', JStr ''Renamed''), (''contribution'', JNum (- 5))])
   \<and> group_findUnique
        (fst (put_groups test_runtime db0 9
           (bearer ''tok-alice'' ''1'' [(''name'', JStr ''Renamed''), (''contribution'', JNum (- 5))]))) 1
       = Some \<lparr>g_id = 1, g_name = ''Renamed'', g_description = Some ''First'',
               g_contribution = Some (- 5), g_frequency = Some ''monthly'', g_maxMembers = None,
               g_createdAt = 5, g_updatedAt = 9\<rparr>
   \<and> group_data_accepted test_runtime
        (bearer ''tok-alice'' ''1'' [(''contribution'', JStr ''abc'')])
   \<and> parseFloat test_runtime (JStr ''abc'') = None
   \<and> status (snd (put_groups test_runtime db0 9
        (bearer ''tok-alice'' ''1'' [(''contribution'', JStr ''abc'')]))) = 200
   \<and> group_findUnique
        (fst (put_groups test_runtime db0 9
           (bearer ''tok-alice'' ''1'' [(''contribution'', JStr ''abc'')]))) 1
       = Some \<lparr>g_id = 1, g_name = ''Savers'', g_description = Some ''First'',
               g_contribution = None, g_frequency = Some ''monthly'', g_maxMembers = None,
               g_createdAt = 5, g_updatedAt = 9\<rparr>"
proof -
  let ?a = "bearer ''tok-alice'' ''1'' [(''name'', JStr ''Renamed''), (''contribution'', JNum (- 5))]"
  let ?n = "bearer ''tok-alice'' ''1'' [(''contribution'', JStr ''abc'')]"
  have acc: "group_data_accepted test_runtime ?a" "group_data_accepted test_runtime ?n"
    by (rule group_data_accepted_strings;
        simp add: body_of_def string_field_def maxMembers_data_def)+
  have a: "authMiddleware test_runtime ?a = Inr \<lparr>userId = 1, email = ''alice@x.org''\<rparr>"
    and n: "authMiddleware test_runtime ?n = Inr \<lparr>userId = 1, email = ''alice@x.org''\<rparr>"
    and pa: "parseInt test_runtime (JStr (param ?a)) = Some 1"
    and pn: "parseInt test_runtime (JStr (param ?n)) = Some 1"
    by simp_all
  have role: "role_in db0 (userId \<lparr>userId = 1, email = ''alice@x.org''\<rparr>) 1 = Some ''admin''"
    by (simp add: roles_db0)
  have nan: "parseFloat test_runtime (JStr ''abc'') = None"
    and neg: "parseFloat test_runtime (JNum (- 5)) = Some (- 5)"
    by (simp_all add: test_runtime_def test_parseFloat_def decimal_prefix_def
        unsigned_prefix_def digit_value_def)
  have first: "group_findUnique (fst (put_groups test_runtime db0 9 ?a)) 1
       = Some \<lparr>g_id = 1, g_name = ''Renamed'', g_description = Some ''First'',
               g_contribution = Some (- 5), g_frequency = Some ''monthly'', g_maxMembers = None,
               g_createdAt = 5, g_updatedAt = 9\<rparr>"
    using put_groups_overwrites [OF a pa role groups_db0(1), of 9] acc(1)
    by (simp add: body_of_def neg) (simp add: group1_def)
  have second: "status (snd (put_groups test_runtime db0 9 ?n)) = 200
     \<and> group_findUnique (fst (put_groups test_runtime db0 9 ?n)) 1
       = Some \<lparr>g_id = 1, g_name = ''Savers'', g_description = Some ''First'',
               g_contribution = None, g_frequency = Some ''monthly'', g_maxMembers = None,
               g_createdAt = 5, g_updatedAt = 9\<rparr>"
    using put_groups_overwrites [OF n pn role groups_db0(1), of 9] acc(2)
    by (simp add: body_of_def nan) (simp add: group1_def)
  show ?thesis
    by (simp only: roles_db0 groups_db0 acc nan first second simp_thms)
qed

text \<open>
  C8 as stated fails: Alice sends only \<open>name\<close>; \<open>contribution\<close> (50) and \<open>maxMembers\<close> (10)
  are not provided, and both are \<open>null\<close> afterwards instead of keeping their values.
\<close>

theorem put_groups_omitted_contribution_counterexample:
  "body (bearer ''tok-alice'' ''1'' [(''name'', JStr ''Renamed'')]) ''contribution'' = JUndefined
   \<and> body (bearer ''tok-alice'' ''1'' [(''name'', JStr ''Renamed'')]) ''maxMembers'' = JUndefined
   \<and> map_option g_contribution (group_findUnique db0 1) = Some (Some 50)
   \<and> map_option g_maxMembers (group_findUnique db0 1) = Some (Some 10)
   \<and> status (snd (put_groups test_runtime db0 9
                    (bearer ''tok-alice'' ''1'' [(''name'', JStr ''Renamed'')]))) = 200
   \<and> map_option g_contribution
        (group_findUnique (fst (put_groups test_runtime db0 9
           (bearer ''tok-alice'' ''1'' [(''name'', JStr ''Renamed'')]))) 1) = Some None
   \<and> map_option g_maxMembers
        (group_findUnique (fst (put_groups test_runtime db0 9
           (bearer ''tok-alice'' ''1'' [(''name'', JStr ''Renamed'')]))) 1) = Some None"
  by (simp add: put_groups_def group_update_def update_where_def string_field_def
      nullable_string_field_def contribution_data_def maxMembers_data_def body_of_def
      db_defs find_defs)

section \<open>Adding a member\<close>

text \<open>
  C5. \<^verbatim>\<open>POST /memberships\<close> never looks at the caller: its outcome is the same whatever the
  \<^verbatim>\<open>Authorization\<close> header is (absent, malformed, or any token), and it is never an
  authorization error (the status is 201 or 500, the latter when the store throws). For
  every \<open>userId\<close> and \<open>groupId\<close> that parse to an existing user and an existing group not yet
  joined, and every role (the supplied string, or \<open>member\<close> when it is omitted or falsy), the
  Membership row is created.
\<close>

theorem post_memberships_no_caller_check:
  "post_memberships rt d now (req\<lparr>authorization := a\<rparr>) = post_memberships rt d now req
   \<and> (status (snd (post_memberships rt d now req)) = 201
        \<or> status (snd (post_memberships rt d now req)) = 500)
   \<and> (parseInt rt (body req ''userId'') = Some uid
        \<and> parseInt rt (body req ''groupId'') = Some gid
        \<and> role_data (body req ''role'') = Some role
        \<and> user_findUnique d uid \<noteq> None
        \<and> group_findUnique d gid \<noteq> None
        \<and> membership_findUnique_userId_groupId d uid gid = None \<longrightarrow>
       post_memberships rt d now req
         = (d\<lparr>memberships := memberships d @
                 [\<lparr>m_id = membership_seq d, m_userId = uid, m_groupId = gid, m_role = role,
                   m_joinedAt = now\<rparr>],
               membership_seq := membership_seq d + 1\<rparr>,
            Response 201 (MembershipBody
              \<lparr>m_id = membership_seq d, m_userId = uid, m_groupId = gid, m_role = role,
                m_joinedAt = now\<rparr>)))"
proof (intro conjI impI)
  show "post_memberships rt d now (req\<lparr>authorization := a\<rparr>) = post_memberships rt d now req"
    by (simp add: post_memberships_def)
next
  show "status (snd (post_memberships rt d now req)) = 201
        \<or> status (snd (post_memberships rt d now req)) = 500"
    by (simp add: post_memberships_def split: option.splits prod.splits)
next
  assume "parseInt rt (body req ''userId'') = Some uid
        \<and> parseInt rt (body req ''groupId'') = Some gid
        \<and> role_data (body req ''role'') = Some role
        \<and> user_findUnique d uid \<noteq> None
        \<and> group_findUnique d gid \<noteq> None
        \<and> membership_findUnique_userId_groupId d uid gid = None"
  then show "post_memberships rt d now req
         = (d\<lparr>memberships := memberships d @
                 [\<lparr>m_id = membership_seq d, m_userId = uid, m_groupId = gid, m_role = role,
                   m_joinedAt = now\<rparr>],
               membership_seq := membership_seq d + 1\<rparr>,
            Response 201 (MembershipBody
              \<lparr>m_id = membership_seq d, m_userId = uid, m_groupId = gid, m_role = role,
                m_joinedAt = now\<rparr>))"
    by (simp add: post_memberships_def membership_create_def Let_def)
qed

text \<open>A request with no \<^verbatim>\<open>Authorization\<close> header makes Dave an admin of group 1.\<close>

theorem post_memberships_no_caller_check_witness:
  "authorization (anonymous [] [(''userId'', JNum 4), (''groupId'', JStr ''1''), (''role'', JStr ''admin'')])
     = None
   \<and> role_in db0 4 1 = None
   \<and> post_memberships test_runtime db0 9
        (anonymous [] [(''userId'', JNum 4), (''groupId'', JStr ''1''), (''role'', JStr ''admin'')])
       = (db0\<lparr>memberships := memberships db0 @
                 [\<lparr>m_id = 6, m_userId = 4, m_groupId = 1, m_role = ''admin'', m_joinedAt = 9\<rparr>],
               membership_seq := 7\<rparr>,
          Response 201 (MembershipBody
            \<lparr>m_id = 6, m_userId = 4, m_groupId = 1, m_role = ''admin'', m_joinedAt = 9\<rparr>))"
proof -
  let ?r = "anonymous [] [(''userId'', JNum 4), (''groupId'', JStr ''1''), (''role'', JStr ''admin'')]"
  have h: "parseInt test_runtime (body ?r ''userId'') = Some 4
        \<and> parseInt test_runtime (body ?r ''groupId'') = Some 1
        \<and> role_data (body ?r ''role'') = Some ''admin''
        \<and> user_findUnique db0 4 \<noteq> None
        \<and> group_findUnique db0 1 \<noteq> None
        \<and> membership_findUnique_userId_groupId db0 4 1 = None"
    by (simp add: test_defs role_data_def required_string_def db_defs find_defs)
  have s: "membership_seq db0 = 6"
    by (simp add: db0_def)
  have n: "role_in db0 4 1 = None"
    by (simp add: role_in_def db_defs find_defs)
  show ?thesis
    using post_memberships_no_caller_check
        [where rt = test_runtime and d = db0 and now = 9 and req = ?r and a = None and uid = 4
           and gid = 1 and role = "''admin''"] h s n
    by (simp add: anonymous_def)
qed

section \<open>Registering a user\<close>

text \<open>
  C7, as amended. For every registration that the store accepts (the e-mail and the
  password are strings, the lower-cased e-mail is not taken, name and phone are strings or
  absent), \<^verbatim>\<open>POST /users\<close> answers 201, stores the password exactly as supplied, and returns
  the created user without the password field: the response is the same whatever the
  password is.
\<close>

theorem post_users_stores_plain_text:
  assumes "body req ''email'' = JStr e"
    and "body req ''password'' = JStr pw"
    and "optional_string (body req ''name'') = Some n"
    and "optional_string (body req ''phone'') = Some ph"
    and "user_findUnique_email d (toLowerCase rt e) = None"
  shows "post_users rt d now req
           = (d\<lparr>users := users d @
                   [\<lparr>u_id = user_seq d, u_email = toLowerCase rt e, u_password = pw, u_name = n,
                     u_phone = ph, u_pushToken = None, u_createdAt = now, u_updatedAt = now\<rparr>],
                 user_seq := user_seq d + 1\<rparr>,
              Response 201 (UserBody
                \<lparr>w_id = user_seq d, w_email = toLowerCase rt e, w_name = n, w_phone = ph,
                  w_pushToken = None, w_createdAt = now, w_updatedAt = now\<rparr>))
       \<and> snd (post_users rt d now (req\<lparr>body := (body req)(''password'' := JStr pw')\<rparr>))
           = snd (post_users rt d now req)"
  using assms
  by (simp add: post_users_def user_create_def required_string_def without_password_def Let_def)

text \<open>Eve registers with the password \<open>hunter2\<close>.\<close>

theorem post_users_stores_plain_text_witness:
  "user_findUnique_email db0 ''eve@x.org'' = None
   \<and> post_users test_runtime db0 9
        (anonymous [] [(''email'', JStr ''Eve@X.org''), (''password'', JStr ''hunter2''),
                       (''name'', JStr ''Eve'')])
       = (db0\<lparr>users := users db0 @
                 [\<lparr>u_id = 5, u_email = ''eve@x.org'', u_password = ''hunter2'', u_name = Some ''Eve'',
                   u_phone = None, u_pushToken = None, u_createdAt = 9, u_updatedAt = 9\<rparr>],
               user_seq := 6\<rparr>,
          Response 201 (UserBody
            \<lparr>w_id = 5, w_email = ''eve@x.org'', w_name = Some ''Eve'', w_phone = None,
              w_pushToken = None, w_createdAt = 9, w_updatedAt = 9\<rparr>))"
proof -
  let ?r = "anonymous [] [(''email'', JStr ''Eve@X.org''), (''password'', JStr ''hunter2''),
                       (''name'', JStr ''Eve'')]"
  have lower: "toLowerCase test_runtime ''Eve@X.org'' = ''eve@x.org''"
    by (simp add: test_defs)
  have h1: "body ?r ''email'' = JStr ''Eve@X.org''"
    and h2: "body ?r ''password'' = JStr ''hunter2''"
    and h3: "optional_string (body ?r ''name'') = Some (Some ''Eve'')"
    and h4: "optional_string (body ?r ''phone'') = Some None"
    by (simp_all add: anonymous_def body_of_def optional_string_def)
  have free: "user_findUnique_email db0 ''eve@x.org'' = None"
    by (simp add: db_defs find_defs)
  then have h5: "user_findUnique_email db0 (toLowerCase test_runtime ''Eve@X.org'') = None"
    by (simp only: lower)
  have s: "user_seq db0 = 5"
    by (simp add: db0_def)
  show ?thesis
    using post_users_stores_plain_text [OF h1 h2 h3 h4 h5, of 9] free s
    by (simp only: lower) simp
qed

text \<open>
  C7 as stated fails: the credential stored for Eve is the supplied password itself, not a
  hash of it.
\<close>

theorem post_users_password_recoverable_counterexample:
  "body (anonymous [] [(''email'', JStr ''Eve@X.org''), (''password'', JStr ''hunter2''),
                       (''name'', JStr ''Eve'')]) ''password'' = JStr ''hunter2''
   \<and> map_option u_password
        (user_findUnique_email
           (fst (post_users test_runtime db0 9
              (anonymous [] [(''email'', JStr ''Eve@X.org''), (''password'', JStr ''hunter2''),
                             (''name'', JStr ''Eve'')])))
           ''eve@x.org'') = Some ''hunter2''"
  by (simp add: post_users_def user_create_def required_string_def optional_string_def
      Let_def test_defs db_defs find_defs)

section \<open>Removing a member\<close>

lemma delete_memberships_forbidden:
  assumes "authMiddleware rt req = Inr caller"
    and "parseInt rt (JStr (param req)) = Some k"
    and "membership_findUnique d k = Some m"
    and "\<not> (m_userId m = userId caller
            \<or> role_in d (userId caller) (m_groupId m) = Some ''admin'')"
  shows "delete_memberships rt d req
           = (d, Response 403 (ErrorBody ''Only group admins can remove other members''))"
  using assms
  by (auto simp add: delete_memberships_def role_in_def Let_def split: option.splits)

lemma membership_findUnique_after_deleteMany:
  "membership_findUnique (payment_deleteMany_userId_groupId d u g) k = membership_findUnique d k"
  by (simp add: membership_findUnique_def payment_deleteMany_userId_groupId_def)

lemma delete_memberships_permitted:
  assumes "authMiddleware rt req = Inr caller"
    and "parseInt rt (JStr (param req)) = Some k"
    and "membership_findUnique d k = Some m"
    and "m_userId m = userId caller
            \<or> role_in d (userId caller) (m_groupId m) = Some ''admin''"
  shows "delete_memberships rt d req
           = ((payment_deleteMany_userId_groupId d (m_userId m) (m_groupId m))
                \<lparr>memberships := filter (\<lambda>x. m_id x \<noteq> k) (memberships d)\<rparr>,
              Response 200 (MessageBody ''Member removed successfully''))"
proof -
  let ?d1 = "payment_deleteMany_userId_groupId d (m_userId m) (m_groupId m)"
  have "membership_findUnique ?d1 k = Some m"
    using assms(3) by (simp only: membership_findUnique_after_deleteMany)
  moreover have "memberships ?d1 = memberships d"
    by (simp add: payment_deleteMany_userId_groupId_def)
  ultimately have del: "membership_delete ?d1 k
      = Some (?d1\<lparr>memberships := filter (\<lambda>x. m_id x \<noteq> k) (memberships d)\<rparr>)"
    by (simp add: membership_delete_def)
  have allowed: "\<not> (m_userId m \<noteq> userId caller \<and>
      (case membership_findUnique_userId_groupId d (userId caller) (m_groupId m) of
         None \<Rightarrow> True
       | Some userMembership \<Rightarrow> m_role userMembership \<noteq> ''admin''))"
    using assms(4) by (auto simp add: role_in_def split: option.splits)
  show ?thesis
    unfolding delete_memberships_def
    using assms(1-3) allowed by (simp add: Let_def del)
qed

lemma authMiddleware_Inl:
  "authMiddleware rt req = Inl r \<Longrightarrow> \<exists>e. r = Response 401 (ErrorBody e)"
  by (auto simp add: authMiddleware_def split: option.splits if_splits list.splits)

lemma listed_users_get_cycles_payments:
  "set (listed_users (snd (get_cycles_payments rt d req)))
     \<subseteq> p_userId ` {p \<in> set (payments d).
          \<exists>cid. parseInt rt (JStr (param req)) = Some cid \<and> p_cycleId p = cid}"
  by (auto simp add: get_cycles_payments_def listed_users_def payment_findMany_cycleId_def
      split: sum.splits option.splits dest!: authMiddleware_Inl)

text \<open>
  C3. For every existing membership \<open>m\<close> with key \<open>k\<close> and every caller that passes the guard:
  the removal is refused with 403 exactly when the caller is neither the membership's own
  user nor an admin of its group, and otherwise it answers 200. On success the payments are
  deleted first: in the store after \<^verbatim>\<open>payment.deleteMany\<close> the membership is still there and
  no payment of that user in a cycle of that group is left; the final store is that one
  with the membership deleted. Afterwards, listing the payments of any cycle of that group,
  by any request, returns no payment of that user.
\<close>

theorem delete_memberships_removes_payments_first:
  assumes "authMiddleware rt req = Inr caller"
    and "parseInt rt (JStr (param req)) = Some k"
    and "membership_findUnique d k = Some m"
  shows "(\<not> (m_userId m = userId caller
             \<or> role_in d (userId caller) (m_groupId m) = Some ''admin'') \<longrightarrow>
            delete_memberships rt d req
              = (d, Response 403 (ErrorBody ''Only group admins can remove other members'')))
       \<and> (m_userId m = userId caller
             \<or> role_in d (userId caller) (m_groupId m) = Some ''admin'' \<longrightarrow>
            status (snd (delete_memberships rt d req)) = 200
            \<and> membership_findUnique
                 (payment_deleteMany_userId_groupId d (m_userId m) (m_groupId m)) k = Some m
            \<and> (\<forall>p \<in> set (payments
                   (payment_deleteMany_userId_groupId d (m_userId m) (m_groupId m))).
                  \<not> payment_of_user_in_group d (m_userId m) (m_groupId m) p)
            \<and> membership_delete
                 (payment_deleteMany_userId_groupId d (m_userId m) (m_groupId m)) k
                = Some (fst (delete_memberships rt d req))
            \<and> membership_findUnique (fst (delete_memberships rt d req)) k = None
            \<and> (\<forall>(req' :: request) cid c.
                  parseInt rt (JStr (param req')) = Some cid
                  \<and> cycle_findUnique (fst (delete_memberships rt d req)) cid = Some c
                  \<and> c_groupId c = m_groupId m \<longrightarrow>
                  m_userId m \<notin> set (listed_users
                    (snd (get_cycles_payments rt (fst (delete_memberships rt d req)) req')))))"
proof (intro conjI impI allI)
  assume "\<not> (m_userId m = userId caller
             \<or> role_in d (userId caller) (m_groupId m) = Some ''admin'')"
  with assms show "delete_memberships rt d req
              = (d, Response 403 (ErrorBody ''Only group admins can remove other members''))"
    by (rule delete_memberships_forbidden)
next
  assume ok: "m_userId m = userId caller
             \<or> role_in d (userId caller) (m_groupId m) = Some ''admin''"
  let ?d1 = "payment_deleteMany_userId_groupId d (m_userId m) (m_groupId m)"
  note run = delete_memberships_permitted [OF assms ok]
  show "status (snd (delete_memberships rt d req)) = 200"
    by (simp add: run)
  show still: "membership_findUnique ?d1 k = Some m"
    using assms(3) by (simp add: membership_findUnique_after_deleteMany)
  show "\<forall>p \<in> set (payments ?d1). \<not> payment_of_user_in_group d (m_userId m) (m_groupId m) p"
    by (simp add: payment_deleteMany_userId_groupId_def)
  show "membership_delete ?d1 k = Some (fst (delete_memberships rt d req))"
    using still by (simp add: run membership_delete_def payment_deleteMany_userId_groupId_def)
  show "membership_findUnique (fst (delete_memberships rt d req)) k = None"
    by (simp add: run membership_findUnique_def find_None_iff)
  fix req' :: request and cid c
  assume a: "parseInt rt (JStr (param req')) = Some cid
                  \<and> cycle_findUnique (fst (delete_memberships rt d req)) cid = Some c
                  \<and> c_groupId c = m_groupId m"
  let ?d2 = "fst (delete_memberships rt d req)"
  have cyc: "cycle_findUnique d cid = Some c"
    using a by (simp add: run cycle_findUnique_def payment_deleteMany_userId_groupId_def)
  show "m_userId m \<notin> set (listed_users (snd (get_cycles_payments rt ?d2 req')))"
  proof
    assume "m_userId m \<in> set (listed_users (snd (get_cycles_payments rt ?d2 req')))"
    with listed_users_get_cycles_payments [of rt ?d2 req'] a
    obtain p where p: "p \<in> set (payments ?d2)" "p_cycleId p = cid" "p_userId p = m_userId m"
      by auto
    from p(1) have "\<not> payment_of_user_in_group d (m_userId m) (m_groupId m) p"
      by (simp add: run payment_deleteMany_userId_groupId_def)
    moreover have "payment_of_user_in_group d (m_userId m) (m_groupId m) p"
      using p(2,3) cyc a by (simp add: payment_of_user_in_group_def)
    ultimately show False by simp
  qed
qed

text \<open>
  Alice, admin of group 1, removes Bob (membership 2): Bob's payment in cycle 1 is gone from
  the store and from the listing. Bob, a plain member, may not remove Carol (membership 3).
\<close>

theorem delete_memberships_removes_payments_first_witness:
  "membership_findUnique db0 2
     = Some \<lparr>m_id = 2, m_userId = 2, m_groupId = 1, m_role = ''member'', m_joinedAt = 5\<rparr>
   \<and> role_in db0 1 1 = Some ''admin''
   \<and> status (snd (delete_memberships test_runtime db0 (bearer ''tok-alice'' ''2'' []))) = 200
   \<and> map p_userId (payments db0) = [1, 2, 3]
   \<and> map p_userId (payments (fst (delete_memberships test_runtime db0 (bearer ''tok-alice'' ''2'' []))))
       = [1, 3]
   \<and> listed_users (snd (get_cycles_payments test_runtime
          (fst (delete_memberships test_runtime db0 (bearer ''tok-alice'' ''2'' [])))
          (bearer ''tok-alice'' ''1'' []))) = [1, 3]
   \<and> membership_findUnique db0 3
     = Some \<lparr>m_id = 3, m_userId = 3, m_groupId = 1, m_role = ''member'', m_joinedAt = 5\<rparr>
   \<and> role_in db0 2 1 = Some ''member''
   \<and> delete_memberships test_runtime db0 (bearer ''tok-bob'' ''3'' [])
       = (db0, Response 403 (ErrorBody ''Only group admins can remove other members''))"
proof -
  let ?a = "bearer ''tok-alice'' ''2'' []" and ?b = "bearer ''tok-bob'' ''3'' []"
  have a: "authMiddleware test_runtime ?a = Inr \<lparr>userId = 1, email = ''alice@x.org''\<rparr>"
    and b: "authMiddleware test_runtime ?b = Inr \<lparr>userId = 2, email = ''bob@x.org''\<rparr>"
    by simp_all
  have pa: "parseInt test_runtime (JStr (param ?a)) = Some 2"
    and pb: "parseInt test_runtime (JStr (param ?b)) = Some 3"
    by (simp_all add: test_defs)
  have m2: "membership_findUnique db0 2
     = Some \<lparr>m_id = 2, m_userId = 2, m_groupId = 1, m_role = ''member'', m_joinedAt = 5\<rparr>"
    and m3: "membership_findUnique db0 3
     = Some \<lparr>m_id = 3, m_userId = 3, m_groupId = 1, m_role = ''member'', m_joinedAt = 5\<rparr>"
    by (simp_all add: db_defs find_defs)
  have roles: "role_in db0 1 1 = Some ''admin''" "role_in db0 2 1 = Some ''member''"
    by (simp_all add: role_in_def db_defs find_defs)
  have before: "map p_userId (payments db0) = [1, 2, 3]"
    by (simp add: db0_def)
  have run: "delete_memberships test_runtime db0 ?a
      = ((payment_deleteMany_userId_groupId db0 2 1)
           \<lparr>memberships := filter (\<lambda>x. m_id x \<noteq> 2) (memberships db0)\<rparr>,
         Response 200 (MessageBody ''Member removed successfully''))"
    using delete_memberships_permitted [OF a pa m2] roles by simp
  have pay: "payments (fst (delete_memberships test_runtime db0 ?a))
      = [\<lparr>p_id = 1, p_cycleId = 1, p_userId = 1, p_amount = 50, p_paid = True, p_paidAt = Some 8\<rparr>,
         \<lparr>p_id = 3, p_cycleId = 1, p_userId = 3, p_amount = 50, p_paid = False, p_paidAt = None\<rparr>]"
    by (simp only: run fst_conv)
      (simp add: payment_deleteMany_userId_groupId_def payment_of_user_in_group_def
        db_defs find_defs)
  have cyc: "cycles (fst (delete_memberships test_runtime db0 ?a)) = [cycle1]"
    by (simp only: run fst_conv) (simp add: payment_deleteMany_userId_groupId_def db0_def)
  have mem: "memberships (fst (delete_memberships test_runtime db0 ?a))
      = [\<lparr>m_id = 1, m_userId = 1, m_groupId = 1, m_role = ''admin'', m_joinedAt = 5\<rparr>,
         \<lparr>m_id = 3, m_userId = 3, m_groupId = 1, m_role = ''member'', m_joinedAt = 5\<rparr>,
         \<lparr>m_id = 4, m_userId = 1, m_groupId = 2, m_role = ''admin'', m_joinedAt = 6\<rparr>,
         \<lparr>m_id = 5, m_userId = 4, m_groupId = 2, m_role = ''member'', m_joinedAt = 6\<rparr>]"
    by (simp only: run fst_conv) (simp add: payment_deleteMany_userId_groupId_def db0_def)
  have list: "listed_users (snd (get_cycles_payments test_runtime
      (fst (delete_memberships test_runtime db0 ?a)) (bearer ''tok-alice'' ''1'' []))) = [1, 3]"
    by (simp add: get_cycles_payments_def listed_users_def find_defs pay cyc mem cycle1_def)
  have forb: "delete_memberships test_runtime db0 ?b
      = (db0, Response 403 (ErrorBody ''Only group admins can remove other members''))"
    using delete_memberships_removes_payments_first [OF b pb m3] roles by simp
  have ok: "status (snd (delete_memberships test_runtime db0 ?a)) = 200"
    using delete_memberships_removes_payments_first [OF a pa m2] roles by simp
  show ?thesis
    by (simp only: m2 m3 roles before pay list forb ok) simp
qed

section \<open>Creating a cycle\<close>

lemma length_payment_rows: "length (payment_rows k xs) = length xs"
  by (induction k xs rule: payment_rows.induct) simp_all

lemma map_userId_payment_rows: "map p_userId (payment_rows k xs) = map (\<lambda>(c, u, a). u) xs"
  by (induction k xs rule: payment_rows.induct) simp_all

lemma payment_rows_fields:
  "p \<in> set (payment_rows k xs) \<Longrightarrow>
     \<not> p_paid p \<and> p_paidAt p = None \<and> (p_cycleId p, p_userId p, p_amount p) \<in> set xs"
  by (induction k xs rule: payment_rows.induct) auto

lemma find_append_last: "P x \<Longrightarrow> find P (xs @ [x]) \<noteq> None"
  by (auto simp add: find_None_iff)

lemma find_append_mono: "find P xs \<noteq> None \<Longrightarrow> find P (xs @ ys) \<noteq> None"
  by (auto simp add: find_None_iff)

lemma post_groups_cycles_run:
  assumes "authMiddleware rt req = Inr caller"
    and "parseInt rt (JStr (param req)) = Some gid"
    and "role_in d (userId caller) gid = Some ''admin''"
    and "group_findUnique d gid = Some g"
    and "toNumber rt (body req ''cycleIndex'') = Some i"
    and "date_data rt (body req ''startDate'') = Some sd"
    and "date_data rt (body req ''endDate'') = Some ed"
    and "recipient_data rt (body req ''recipientUserId'') = Some rc"
    and "status_data (body req ''status'') = Some st"
    and "case rc of None \<Rightarrow> True | Some r \<Rightarrow> user_findUnique d r \<noteq> None"
    and "members_exist d gid"
  shows "post_groups_cycles rt d now req
           = (d\<lparr>cycles := cycles d @
                   [\<lparr>c_id = cycle_seq d, c_groupId = gid, c_cycleIndex = i, c_startDate = sd,
                     c_endDate = ed, c_recipientUserId = rc, c_status = st, c_createdAt = now\<rparr>],
                 cycle_seq := cycle_seq d + 1,
                 payments := payments d @
                   payment_rows (payment_seq d)
                     (map (\<lambda>m. (cycle_seq d, m_userId m, groupContribution (Some g)))
                        (membership_findMany_groupId d gid)),
                 payment_seq := payment_seq d + int (length (membership_findMany_groupId d gid))\<rparr>,
              Response 201 (CycleCreatedBody
                \<lparr>c_id = cycle_seq d, c_groupId = gid, c_cycleIndex = i, c_startDate = sd,
                  c_endDate = ed, c_recipientUserId = rc, c_status = st, c_createdAt = now\<rparr>
                ''Cycle and payment records created successfully.''))"
proof -
  let ?c = "\<lparr>c_id = cycle_seq d, c_groupId = gid, c_cycleIndex = i, c_startDate = sd,
             c_endDate = ed, c_recipientUserId = rc, c_status = st, c_createdAt = now\<rparr>"
  let ?d1 = "d\<lparr>cycles := cycles d @ [?c], cycle_seq := cycle_seq d + 1\<rparr>"
  let ?data = "map (\<lambda>m. (cycle_seq d, m_userId m, groupContribution (Some g)))
                 (membership_findMany_groupId d gid)"
  have create: "cycle_create d now gid i sd ed rc st = Some (?c, ?d1)"
    using assms(4,10) by (simp add: cycle_create_def Let_def split: option.splits)
  have same: "membership_findMany_groupId ?d1 gid = membership_findMany_groupId d gid"
    "group_findUnique ?d1 gid = Some g"
    using assms(4) by (simp_all add: membership_findMany_groupId_def group_findUnique_def)
  have "cycle_findUnique ?d1 (cycle_seq d) \<noteq> None"
    by (simp add: cycle_findUnique_def find_append_last)
  moreover have "\<forall>m \<in> set (membership_findMany_groupId d gid).
      user_findUnique ?d1 (m_userId m) \<noteq> None"
    using assms(11) by (simp add: members_exist_def list_all_iff user_findUnique_def)
  ultimately have many: "payment_createMany ?d1 ?data
      = Some (?d1\<lparr>payments := payments ?d1 @ payment_rows (payment_seq ?d1) ?data,
                  payment_seq := payment_seq ?d1 + int (length ?data)\<rparr>)"
    by (simp add: payment_createMany_def list_all_iff)
  obtain m where m: "membership_findUnique_userId_groupId d (userId caller) gid = Some m"
    "m_role m = ''admin''"
    using assms(3) by (auto simp add: role_in_def)
  show ?thesis
    unfolding post_groups_cycles_def
    by (simp add: assms(1,2,5-9) m create Let_def same many)
qed

lemma cycle_data_acceptedE:
  assumes "cycle_data_accepted rt d req"
  obtains i sd ed rc st where
    "toNumber rt (body req ''cycleIndex'') = Some i"
    "date_data rt (body req ''startDate'') = Some sd"
    "date_data rt (body req ''endDate'') = Some ed"
    "recipient_data rt (body req ''recipientUserId'') = Some rc"
    "status_data (body req ''status'') = Some st"
    "case rc of None \<Rightarrow> True | Some r \<Rightarrow> user_findUnique d r \<noteq> None"
  using assms by (auto simp add: cycle_data_accepted_def split: option.splits)

lemma groupContribution_Some:
  "groupContribution (Some g)
     = (case g_contribution g of None \<Rightarrow> 100 | Some x \<Rightarrow> if x = 0 then 100 else x)"
  by (simp add: groupContribution_def split: option.splits)

lemma admin_is_member:
  assumes "role_in d uid gid = Some ''admin''"
  shows "0 < length (membership_findMany_groupId d gid)"
proof -
  from assms obtain m where "membership_findUnique_userId_groupId d uid gid = Some m"
    by (auto simp add: role_in_def)
  then have "m \<in> set (memberships d) \<and> m_groupId m = gid"
    by (auto simp add: membership_findUnique_userId_groupId_def find_Some_iff)
  then have "m \<in> set (membership_findMany_groupId d gid)"
    by (simp add: membership_findMany_groupId_def)
  then show ?thesis
    by (cases "membership_findMany_groupId d gid") auto
qed

lemma recipient_data_value:
  "recipient_data rt v = Some rc \<Longrightarrow> rc = (if truthy v then toNumber rt v else None)"
  by (auto simp add: recipient_data_def nullable_int_def split: if_splits option.splits)

lemma post_groups_cycles_rejected:
  assumes "authMiddleware rt req = Inr caller"
    and "parseInt rt (JStr (param req)) = Some gid"
    and "role_in d (userId caller) gid = Some ''admin''"
    and "\<not> cycle_data_accepted rt d req"
  shows "post_groups_cycles rt d now req
           = (d, Response 500 (ErrorBody ''Failed to create cycle''))"
proof -
  obtain m where m: "membership_findUnique_userId_groupId d (userId caller) gid = Some m"
    "m_role m = ''admin''"
    using assms(3) by (auto simp add: role_in_def)
  show ?thesis
    unfolding post_groups_cycles_def
    using assms(1,2,4) m
    by (auto simp add: cycle_data_accepted_def cycle_create_def split: option.splits)
qed

text \<open>
  C1, as amended. For every cycle creation by an admin of the group that the store accepts,
  the handler answers 201, appends one Cycle of that group and appends exactly one Payment
  per current Membership of the group, in the order of the Memberships, each for the new
  cycle, unpaid, with no paid-timestamp, and with the amount \<^verbatim>\<open>group.contribution || 100\<close>:
  the group's contribution when it is neither \<open>null\<close> nor \<open>0\<close>, and 100 otherwise. The number
  of Memberships is at least one, the admin's own. A creation that the store does not
  accept answers 500 and creates nothing.
\<close>

theorem post_groups_cycles_fan_out:
  assumes "authMiddleware rt req = Inr caller"
    and "parseInt rt (JStr (param req)) = Some gid"
    and "role_in d (userId caller) gid = Some ''admin''"
    and "group_findUnique d gid = Some g"
    and "members_exist d gid"
  shows "(cycle_data_accepted rt d req \<longrightarrow>
            status (snd (post_groups_cycles rt d now req)) = 201
            \<and> (\<exists>c new.
                 content (snd (post_groups_cycles rt d now req))
                   = CycleCreatedBody c ''Cycle and payment records created successfully.''
                 \<and> cycles (fst (post_groups_cycles rt d now req)) = cycles d @ [c]
                 \<and> c_groupId c = gid
                 \<and> c_recipientUserId c
                     = (if truthy (body req ''recipientUserId'')
                        then toNumber rt (body req ''recipientUserId'') else None)
                 \<and> payments (fst (post_groups_cycles rt d now req)) = payments d @ new
                 \<and> length new = length (membership_findMany_groupId d gid)
                 \<and> map p_userId new = map m_userId (membership_findMany_groupId d gid)
                 \<and> (\<forall>p \<in> set new.
                       p_cycleId p = c_id c
                       \<and> p_amount p
                           = (case g_contribution g of
                                None \<Rightarrow> 100
                              | Some x \<Rightarrow> if x = 0 then 100 else x)
                       \<and> \<not> p_paid p \<and> p_paidAt p = None)))
       \<and> (\<not> cycle_data_accepted rt d req \<longrightarrow>
            post_groups_cycles rt d now req
              = (d, Response 500 (ErrorBody ''Failed to create cycle'')))
       \<and> 0 < length (membership_findMany_groupId d gid)"
proof (intro conjI impI)
  assume "cycle_data_accepted rt d req"
  then obtain i sd ed rc st where acc:
    "toNumber rt (body req ''cycleIndex'') = Some i"
    "date_data rt (body req ''startDate'') = Some sd"
    "date_data rt (body req ''endDate'') = Some ed"
    "recipient_data rt (body req ''recipientUserId'') = Some rc"
    "status_data (body req ''status'') = Some st"
    "case rc of None \<Rightarrow> True | Some r \<Rightarrow> user_findUnique d r \<noteq> None"
    by (rule cycle_data_acceptedE)
  let ?c = "\<lparr>c_id = cycle_seq d, c_groupId = gid, c_cycleIndex = i, c_startDate = sd,
             c_endDate = ed, c_recipientUserId = rc, c_status = st, c_createdAt = now\<rparr>"
  let ?new = "payment_rows (payment_seq d)
                (map (\<lambda>m. (cycle_seq d, m_userId m, groupContribution (Some g)))
                   (membership_findMany_groupId d gid))"
  note run = post_groups_cycles_run [OF assms(1-4) acc(1-5) acc(6) assms(5), of now]
  show "status (snd (post_groups_cycles rt d now req)) = 201"
    by (simp add: run)
  have rows: "\<forall>p \<in> set ?new.
      p_cycleId p = c_id ?c
      \<and> p_amount p = (case g_contribution g of None \<Rightarrow> 100 | Some x \<Rightarrow> if x = 0 then 100 else x)
      \<and> \<not> p_paid p \<and> p_paidAt p = None"
  proof
    fix p assume "p \<in> set ?new"
    from payment_rows_fields [OF this]
    show "p_cycleId p = c_id ?c
      \<and> p_amount p = (case g_contribution g of None \<Rightarrow> 100 | Some x \<Rightarrow> if x = 0 then 100 else x)
      \<and> \<not> p_paid p \<and> p_paidAt p = None"
      by (auto simp add: groupContribution_Some)
  qed
  have users: "map p_userId ?new = map m_userId (membership_findMany_groupId d gid)"
    by (simp add: map_userId_payment_rows comp_def)
  have len: "length ?new = length (membership_findMany_groupId d gid)"
    by (simp add: length_payment_rows)
  have rcp: "c_recipientUserId ?c
      = (if truthy (body req ''recipientUserId'')
         then toNumber rt (body req ''recipientUserId'') else None)"
    using recipient_data_value [OF acc(4)] by simp
  have "content (snd (post_groups_cycles rt d now req))
              = CycleCreatedBody ?c ''Cycle and payment records created successfully.''
            \<and> cycles (fst (post_groups_cycles rt d now req)) = cycles d @ [?c]
            \<and> c_groupId ?c = gid
            \<and> payments (fst (post_groups_cycles rt d now req)) = payments d @ ?new"
    by (simp add: run)
  with rows users len rcp
  show "\<exists>c new.
            content (snd (post_groups_cycles rt d now req))
              = CycleCreatedBody c ''Cycle and payment records created successfully.''
            \<and> cycles (fst (post_groups_cycles rt d now req)) = cycles d @ [c]
            \<and> c_groupId c = gid
            \<and> c_recipientUserId c
                = (if truthy (body req ''recipientUserId'')
                   then toNumber rt (body req ''recipientUserId'') else None)
            \<and> payments (fst (post_groups_cycles rt d now req)) = payments d @ new
            \<and> length new = length (membership_findMany_groupId d gid)
            \<and> map p_userId new = map m_userId (membership_findMany_groupId d gid)
            \<and> (\<forall>p \<in> set new.
                  p_cycleId p = c_id c
                  \<and> p_amount p
                      = (case g_contribution g of
                           None \<Rightarrow> 100
                         | Some x \<Rightarrow> if x = 0 then 100 else x)
                  \<and> \<not> p_paid p \<and> p_paidAt p = None)"
    by blast
next
  assume "\<not> cycle_data_accepted rt d req"
  with assms(1-3) show "post_groups_cycles rt d now req
      = (d, Response 500 (ErrorBody ''Failed to create cycle''))"
    by (rule post_groups_cycles_rejected)
next
  show "0 < length (membership_findMany_groupId d gid)"
    by (rule admin_is_member [OF assms(3)])
qed

text \<open>
  C9. Cycle creation is not idempotent: when an admin's creation request is accepted, the
  same request sent again is accepted as well, and after both the store holds two new
  Cycle rows of the group with different keys and otherwise the same data (the same
  \<open>cycleIndex\<close>, dates, recipient and status: the second is the first with the next key and
  its own creation time), and \<open>2N\<close> new Payment rows for the \<open>N\<close> Memberships of the group.
  The requests left out are those that the store does not accept: they answer 500 and
  create nothing.
\<close>

theorem post_groups_cycles_not_idempotent:
  assumes "authMiddleware rt req = Inr caller"
    and "parseInt rt (JStr (param req)) = Some gid"
    and "role_in d (userId caller) gid = Some ''admin''"
    and "group_findUnique d gid = Some g"
    and "members_exist d gid"
  shows "(cycle_data_accepted rt d req \<longrightarrow>
            status (snd (post_groups_cycles rt d now req)) = 201
            \<and> status (snd (post_groups_cycles rt (fst (post_groups_cycles rt d now req)) now' req))
                = 201
            \<and> (\<exists>c1 c2.
                 cycles (fst (post_groups_cycles rt (fst (post_groups_cycles rt d now req)) now' req))
                   = cycles d @ [c1, c2]
                 \<and> c_id c1 \<noteq> c_id c2
                 \<and> c_groupId c1 = gid \<and> c_groupId c2 = gid
                 \<and> c2 = c1\<lparr>c_id := c_id c1 + 1, c_createdAt := now'\<rparr>)
            \<and> length (payments
                 (fst (post_groups_cycles rt (fst (post_groups_cycles rt d now req)) now' req)))
                = length (payments d) + 2 * length (membership_findMany_groupId d gid))
       \<and> (\<not> cycle_data_accepted rt d req \<longrightarrow>
            post_groups_cycles rt d now req
              = (d, Response 500 (ErrorBody ''Failed to create cycle'')))"
proof (intro conjI impI)
  assume "cycle_data_accepted rt d req"
  then obtain i sd ed rc st where acc:
    "toNumber rt (body req ''cycleIndex'') = Some i"
    "date_data rt (body req ''startDate'') = Some sd"
    "date_data rt (body req ''endDate'') = Some ed"
    "recipient_data rt (body req ''recipientUserId'') = Some rc"
    "status_data (body req ''status'') = Some st"
    "case rc of None \<Rightarrow> True | Some r \<Rightarrow> user_findUnique d r \<noteq> None"
    by (rule cycle_data_acceptedE)
  let ?c1 = "\<lparr>c_id = cycle_seq d, c_groupId = gid, c_cycleIndex = i, c_startDate = sd,
              c_endDate = ed, c_recipientUserId = rc, c_status = st, c_createdAt = now\<rparr>"
  let ?ms = "membership_findMany_groupId d gid"
  let ?d1 = "d\<lparr>cycles := cycles d @ [?c1],
                cycle_seq := cycle_seq d + 1,
                payments := payments d @
                   payment_rows (payment_seq d)
                     (map (\<lambda>m. (cycle_seq d, m_userId m, groupContribution (Some g))) ?ms),
                 payment_seq := payment_seq d + int (length ?ms)\<rparr>"
  have run1: "post_groups_cycles rt d now req
      = (?d1, Response 201 (CycleCreatedBody ?c1
                ''Cycle and payment records created successfully.''))"
    by (rule post_groups_cycles_run [OF assms(1-4) acc(1-5) acc(6) assms(5)])
  have role1: "role_in ?d1 (userId caller) gid = Some ''admin''"
    using assms(3) by (simp add: role_in_def membership_findUnique_userId_groupId_def)
  have group1: "group_findUnique ?d1 gid = Some g"
    using assms(4) by (simp add: group_findUnique_def)
  have rc1: "case rc of None \<Rightarrow> True | Some r \<Rightarrow> user_findUnique ?d1 r \<noteq> None"
    using acc(6) by (cases rc) (simp_all add: user_findUnique_def)
  have ms1: "membership_findMany_groupId ?d1 gid = ?ms"
    by (simp add: membership_findMany_groupId_def)
  have ex1: "members_exist ?d1 gid"
    using assms(5) by (simp add: members_exist_def ms1) (simp add: user_findUnique_def)
  note run2 = post_groups_cycles_run [OF assms(1,2) role1 group1 acc(1-5) rc1 ex1, of now']
  show "status (snd (post_groups_cycles rt d now req)) = 201"
    by (simp add: run1)
  show "status (snd (post_groups_cycles rt (fst (post_groups_cycles rt d now req)) now' req))
      = 201"
    by (simp add: run1 run2)
  show "\<exists>c1 c2.
      cycles (fst (post_groups_cycles rt (fst (post_groups_cycles rt d now req)) now' req))
        = cycles d @ [c1, c2]
      \<and> c_id c1 \<noteq> c_id c2
      \<and> c_groupId c1 = gid \<and> c_groupId c2 = gid
      \<and> c2 = c1\<lparr>c_id := c_id c1 + 1, c_createdAt := now'\<rparr>"
    by (simp add: run1 run2)
  show "length (payments
      (fst (post_groups_cycles rt (fst (post_groups_cycles rt d now req)) now' req)))
      = length (payments d) + 2 * length (membership_findMany_groupId d gid)"
    by (simp add: run1 run2 ms1 length_payment_rows)
next
  assume "\<not> cycle_data_accepted rt d req"
  with assms(1-3) show "post_groups_cycles rt d now req
      = (d, Response 500 (ErrorBody ''Failed to create cycle''))"
    by (rule post_groups_cycles_rejected)
qed

text \<open>
  A group without Memberships has no admin: creating a cycle for it is refused, so the
  fan-out never runs on an empty group.
\<close>

lemma post_groups_cycles_no_members:
  assumes "authMiddleware rt req = Inr caller"
    and "parseInt rt (JStr (param req)) = Some gid"
    and "membership_findMany_groupId d gid = []"
  shows "post_groups_cycles rt d now req
           = (d, Response 403 (ErrorBody ''You are not a member of this group.''))"
proof -
  from assms(3) have "\<forall>m \<in> set (memberships d). m_groupId m \<noteq> gid"
    by (simp add: membership_findMany_groupId_def filter_empty_conv)
  then have "membership_findUnique_userId_groupId d (userId caller) gid = None"
    by (simp add: membership_findUnique_userId_groupId_def find_None_iff)
  with assms(1,2) show ?thesis
    by (simp add: post_groups_cycles_def)
qed

text \<open>
  The contribution \<open>0\<close> can be stored: the string \<open>0\<close> is truthy, so
  \<^verbatim>\<open>contribution ? parseFloat(contribution) : null\<close> writes the number it parses to.
\<close>

lemma zero_contribution_can_be_stored:
  "map_option g_contribution
     (group_findUnique
        (fst (put_groups test_runtime db0 9 (bearer ''tok-alice'' ''1'' [(''contribution'', JStr ''0'')])))
        1) = Some (Some 0)"
proof -
  have "parseFloat test_runtime (JStr ''0'') = Some 0"
    by (simp add: test_runtime_def test_parseFloat_def decimal_prefix_def unsigned_prefix_def
        digit_value_def)
  then show ?thesis
    by (simp add: put_groups_def group_update_def update_where_def string_field_def
        nullable_string_field_def contribution_data_def maxMembers_data_def body_of_def
        db_defs find_defs)
qed

lemma cycle_request_accepted:
  "cycle_data_accepted test_runtime db0 (bearer t p [(''cycleIndex'', JNum 2)])"
  by (simp add: cycle_data_accepted_def date_data_def recipient_data_def status_data_def
      body_of_def test_runtime_def test_toNumber_def int32_def)

lemma cycle_request_nan_recipient:
  "toNumber test_runtime (JStr ''abc'') = None"
  "toNumber_isNaN test_runtime (JStr ''abc'')"
  "cycle_data_accepted test_runtime db0
     (bearer t p [(''cycleIndex'', JNum 2), (''recipientUserId'', JStr ''abc'')])"
  by (simp_all add: cycle_data_accepted_def date_data_def recipient_data_def status_data_def
      nullable_int_def body_of_def test_runtime_def test_toNumber_def test_toNumber_isNaN_def
      digit_value_def int32_def)

lemma members_exist_db0: "members_exist db0 1" "members_exist db0 2"
  by (simp_all add: members_exist_def db_defs find_defs)

lemma members_db0:
  "membership_findMany_groupId db0 1
     = [\<lparr>m_id = 1, m_userId = 1, m_groupId = 1, m_role = ''admin'', m_joinedAt = 5\<rparr>,
        \<lparr>m_id = 2, m_userId = 2, m_groupId = 1, m_role = ''member'', m_joinedAt = 5\<rparr>,
        \<lparr>m_id = 3, m_userId = 3, m_groupId = 1, m_role = ''member'', m_joinedAt = 5\<rparr>]"
  "membership_findMany_groupId db0 2
     = [\<lparr>m_id = 4, m_userId = 1, m_groupId = 2, m_role = ''admin'', m_joinedAt = 6\<rparr>,
        \<lparr>m_id = 5, m_userId = 4, m_groupId = 2, m_role = ''member'', m_joinedAt = 6\<rparr>]"
  by (simp_all add: db_defs find_defs)

lemma cycle_request_run:
  assumes "group_findUnique db0 gid = Some g" and "role_in db0 1 gid = Some ''admin''"
    and "members_exist db0 gid" and "parseInt test_runtime (JStr p) = Some gid"
  shows "post_groups_cycles test_runtime db0 9 (bearer ''tok-alice'' p [(''cycleIndex'', JNum 2)])
      = (db0\<lparr>cycles := cycles db0 @
                 [\<lparr>c_id = cycle_seq db0, c_groupId = gid, c_cycleIndex = 2, c_startDate = None,
                   c_endDate = None, c_recipientUserId = None, c_status = ''active'',
                   c_createdAt = 9\<rparr>],
               cycle_seq := cycle_seq db0 + 1,
               payments := payments db0 @
                 payment_rows (payment_seq db0)
                   (map (\<lambda>m. (cycle_seq db0, m_userId m, groupContribution (Some g)))
                      (membership_findMany_groupId db0 gid)),
               payment_seq := payment_seq db0 + int (length (membership_findMany_groupId db0 gid))\<rparr>,
         Response 201 (CycleCreatedBody
           \<lparr>c_id = cycle_seq db0, c_groupId = gid, c_cycleIndex = 2, c_startDate = None,
             c_endDate = None, c_recipientUserId = None, c_status = ''active'', c_createdAt = 9\<rparr>
           ''Cycle and payment records created successfully.''))"
proof -
  let ?r = "bearer ''tok-alice'' p [(''cycleIndex'', JNum 2)]"
  have a: "authMiddleware test_runtime ?r = Inr \<lparr>userId = 1, email = ''alice@x.org''\<rparr>"
    and pa: "parseInt test_runtime (JStr (param ?r)) = Some gid"
    using assms(4) by simp_all
  have role: "role_in db0 (userId \<lparr>userId = 1, email = ''alice@x.org''\<rparr>) gid = Some ''admin''"
    using assms(2) by simp
  have data: "toNumber test_runtime (body ?r ''cycleIndex'') = Some 2"
    "date_data test_runtime (body ?r ''startDate'') = Some None"
    "date_data test_runtime (body ?r ''endDate'') = Some None"
    "recipient_data test_runtime (body ?r ''recipientUserId'') = Some None"
    "status_data (body ?r ''status'') = Some ''active''"
    by (simp_all add: date_data_def recipient_data_def status_data_def body_of_def
        test_runtime_def test_toNumber_def int32_def)
  show ?thesis
    by (rule post_groups_cycles_run [OF a pa role assms(1) data _ assms(3)]) simp
qed

text \<open>
  Alice creates cycle 2 of group 1 (contribution 50, three members). With a recipient that
  is no number the creation is accepted as well, and three payments are created.
\<close>

theorem post_groups_cycles_fan_out_witness:
  "role_in db0 1 1 = Some ''admin''
   \<and> group_findUnique db0 1 = Some group1
   \<and> g_contribution group1 = Some 50
   \<and> cycle_data_accepted test_runtime db0 (bearer ''tok-alice'' ''1'' [(''cycleIndex'', JNum 2)])
   \<and> members_exist db0 1
   \<and> map m_userId (membership_findMany_groupId db0 1) = [1, 2, 3]
   \<and> status (snd (post_groups_cycles test_runtime db0 9
                    (bearer ''tok-alice'' ''1'' [(''cycleIndex'', JNum 2)]))) = 201
   \<and> payments (fst (post_groups_cycles test_runtime db0 9
                      (bearer ''tok-alice'' ''1'' [(''cycleIndex'', JNum 2)])))
       = payments db0 @
         [\<lparr>p_id = 4, p_cycleId = 2, p_userId = 1, p_amount = 50, p_paid = False, p_paidAt = None\<rparr>,
          \<lparr>p_id = 5, p_cycleId = 2, p_userId = 2, p_amount = 50, p_paid = False, p_paidAt = None\<rparr>,
          \<lparr>p_id = 6, p_cycleId = 2, p_userId = 3, p_amount = 50, p_paid = False, p_paidAt = None\<rparr>]
   \<and> toNumber test_runtime (JStr ''abc'') = None
   \<and> cycle_data_accepted test_runtime db0
        (bearer ''tok-alice'' ''1'' [(''cycleIndex'', JNum 2), (''recipientUserId'', JStr ''abc'')])
   \<and> status (snd (post_groups_cycles test_runtime db0 9
        (bearer ''tok-alice'' ''1'' [(''cycleIndex'', JNum 2), (''recipientUserId'', JStr ''abc'')])))
       = 201
   \<and> length (payments (fst (post_groups_cycles test_runtime db0 9
        (bearer ''tok-alice'' ''1'' [(''cycleIndex'', JNum 2), (''recipientUserId'', JStr ''abc'')]))))
       = length (payments db0) + 3"
proof -
  let ?r = "bearer ''tok-alice'' ''1'' [(''cycleIndex'', JNum 2)]"
  let ?n = "bearer ''tok-alice'' ''1'' [(''cycleIndex'', JNum 2), (''recipientUserId'', JStr ''abc'')]"
  have a: "authMiddleware test_runtime ?r = Inr \<lparr>userId = 1, email = ''alice@x.org''\<rparr>"
    and n: "authMiddleware test_runtime ?n = Inr \<lparr>userId = 1, email = ''alice@x.org''\<rparr>"
    and pa: "parseInt test_runtime (JStr (param ?r)) = Some 1"
    and pn: "parseInt test_runtime (JStr (param ?n)) = Some 1"
    by simp_all
  have role: "role_in db0 (userId \<lparr>userId = 1, email = ''alice@x.org''\<rparr>) 1 = Some ''admin''"
    by (simp add: roles_db0)
  note run = cycle_request_run [OF groups_db0(1) roles_db0(1) members_exist_db0(1) parseInt_1]
  have seqs: "cycle_seq db0 = 2" "payment_seq db0 = 4"
    by (simp_all add: db0_def)
  have pays: "payments (fst (post_groups_cycles test_runtime db0 9 ?r))
       = payments db0 @
         [\<lparr>p_id = 4, p_cycleId = 2, p_userId = 1, p_amount = 50, p_paid = False, p_paidAt = None\<rparr>,
          \<lparr>p_id = 5, p_cycleId = 2, p_userId = 2, p_amount = 50, p_paid = False, p_paidAt = None\<rparr>,
          \<lparr>p_id = 6, p_cycleId = 2, p_userId = 3, p_amount = 50, p_paid = False, p_paidAt = None\<rparr>]"
    by (simp only: run fst_conv)
      (simp add: members_db0 seqs groupContribution_def group1_def)
  have ok: "status (snd (post_groups_cycles test_runtime db0 9 ?r)) = 201"
    using post_groups_cycles_fan_out
      [OF a pa role groups_db0(1) members_exist_db0(1), of 9] cycle_request_accepted
    by simp
  have len: "length (membership_findMany_groupId db0 1) = 3"
    by (simp add: members_db0)
  have nan: "status (snd (post_groups_cycles test_runtime db0 9 ?n)) = 201
      \<and> length (payments (fst (post_groups_cycles test_runtime db0 9 ?n)))
          = length (payments db0) + 3"
    using post_groups_cycles_fan_out
      [OF n pn role groups_db0(1) members_exist_db0(1), of 9] cycle_request_nan_recipient(3)
    by (auto simp add: len)
  show ?thesis
    by (simp only: roles_db0 groups_db0 cycle_request_accepted cycle_request_nan_recipient
        members_exist_db0 members_db0 pays ok nan simp_thms)
      (simp add: group1_def)
qed

text \<open>
  C1 as stated fails: group 2 has the non-null contribution \<open>0\<close>, and the payments of its new
  cycle have the amount 100, not 0.
\<close>

theorem post_groups_cycles_zero_contribution_counterexample:
  "map_option g_contribution (group_findUnique db0 2) = Some (Some 0)
   \<and> status (snd (post_groups_cycles test_runtime db0 9
                    (bearer ''tok-alice'' ''2'' [(''cycleIndex'', JNum 2)]))) = 201
   \<and> payments (fst (post_groups_cycles test_runtime db0 9
                      (bearer ''tok-alice'' ''2'' [(''cycleIndex'', JNum 2)])))
       = payments db0 @
         [\<lparr>p_id = 4, p_cycleId = 2, p_userId = 1, p_amount = 100, p_paid = False, p_paidAt = None\<rparr>,
          \<lparr>p_id = 5, p_cycleId = 2, p_userId = 4, p_amount = 100, p_paid = False, p_paidAt = None\<rparr>]"
proof -
  let ?r = "bearer ''tok-alice'' ''2'' [(''cycleIndex'', JNum 2)]"
  note run = cycle_request_run [OF groups_db0(2) roles_db0(3) members_exist_db0(2) parseInt_2]
  have seqs: "cycle_seq db0 = 2" "payment_seq db0 = 4"
    by (simp_all add: db0_def)
  have pays: "payments (fst (post_groups_cycles test_runtime db0 9 ?r))
       = payments db0 @
         [\<lparr>p_id = 4, p_cycleId = 2, p_userId = 1, p_amount = 100, p_paid = False, p_paidAt = None\<rparr>,
          \<lparr>p_id = 5, p_cycleId = 2, p_userId = 4, p_amount = 100, p_paid = False, p_paidAt = None\<rparr>]"
    by (simp only: run fst_conv)
      (simp add: members_db0 seqs groupContribution_def group2_def)
  have ok: "status (snd (post_groups_cycles test_runtime db0 9 ?r)) = 201"
    by (simp only: run snd_conv) simp
  show ?thesis
    by (simp only: groups_db0 pays ok) (simp add: group2_def)
qed

text \<open>Alice sends the same creation request for group 1 twice.\<close>

theorem post_groups_cycles_not_idempotent_witness:
  "role_in db0 1 1 = Some ''admin''
   \<and> group_findUnique db0 1 = Some group1
   \<and> cycle_data_accepted test_runtime db0 (bearer ''tok-alice'' ''1'' [(''cycleIndex'', JNum 2)])
   \<and> members_exist db0 1
   \<and> length (cycles db0) = 1 \<and> length (payments db0) = 3
   \<and> length (membership_findMany_groupId db0 1) = 3
   \<and> status (snd (post_groups_cycles test_runtime
        (fst (post_groups_cycles test_runtime db0 9
           (bearer ''tok-alice'' ''1'' [(''cycleIndex'', JNum 2)]))) 10
        (bearer ''tok-alice'' ''1'' [(''cycleIndex'', JNum 2)]))) = 201
   \<and> length (cycles (fst (post_groups_cycles test_runtime
        (fst (post_groups_cycles test_runtime db0 9
           (bearer ''tok-alice'' ''1'' [(''cycleIndex'', JNum 2)]))) 10
        (bearer ''tok-alice'' ''1'' [(''cycleIndex'', JNum 2)])))) = 3
   \<and> length (payments (fst (post_groups_cycles test_runtime
        (fst (post_groups_cycles test_runtime db0 9
           (bearer ''tok-alice'' ''1'' [(''cycleIndex'', JNum 2)]))) 10
        (bearer ''tok-alice'' ''1'' [(''cycleIndex'', JNum 2)])))) = 9"
proof -
  let ?r = "bearer ''tok-alice'' ''1'' [(''cycleIndex'', JNum 2)]"
  have a: "authMiddleware test_runtime ?r = Inr \<lparr>userId = 1, email = ''alice@x.org''\<rparr>"
    and pa: "parseInt test_runtime (JStr (param ?r)) = Some 1"
    by simp_all
  have role: "role_in db0 (userId \<lparr>userId = 1, email = ''alice@x.org''\<rparr>) 1 = Some ''admin''"
    by (simp add: roles_db0)
  have lens: "length (cycles db0) = 1" "length (payments db0) = 3"
    "length (membership_findMany_groupId db0 1) = 3"
    by (simp_all add: members_db0) (simp_all add: db0_def)
  have twice: "status (snd (post_groups_cycles test_runtime
            (fst (post_groups_cycles test_runtime db0 9 ?r)) 10 ?r)) = 201
      \<and> (\<exists>c1 c2.
            cycles (fst (post_groups_cycles test_runtime
              (fst (post_groups_cycles test_runtime db0 9 ?r)) 10 ?r)) = cycles db0 @ [c1, c2])
      \<and> length (payments (fst (post_groups_cycles test_runtime
            (fst (post_groups_cycles test_runtime db0 9 ?r)) 10 ?r)))
          = length (payments db0) + 2 * length (membership_findMany_groupId db0 1)"
    using post_groups_cycles_not_idempotent
      [OF a pa role groups_db0(1) members_exist_db0(1), of 9 10] cycle_request_accepted
    by blast
  from twice have ok: "status (snd (post_groups_cycles test_runtime
        (fst (post_groups_cycles test_runtime db0 9 ?r)) 10 ?r)) = 201"
    by simp
  from twice have pays: "length (payments (fst (post_groups_cycles test_runtime
        (fst (post_groups_cycles test_runtime db0 9 ?r)) 10 ?r))) = 9"
    by (simp add: lens)
  from twice obtain c1 c2 where "cycles (fst (post_groups_cycles test_runtime
        (fst (post_groups_cycles test_runtime db0 9 ?r)) 10 ?r)) = cycles db0 @ [c1, c2]"
    by blast
  then have cycs: "length (cycles (fst (post_groups_cycles test_runtime
        (fst (post_groups_cycles test_runtime db0 9 ?r)) 10 ?r))) = 3"
    by (simp add: lens)
  show ?thesis
    by (simp only: roles_db0 groups_db0 cycle_request_accepted members_exist_db0 lens ok pays cycs
        simp_thms)
qed

section \<open>Updating a cycle\<close>



lemma put_cycles_run:
  assumes "authMiddleware rt req = Inr caller"
    and "parseInt rt (JStr (param req)) = Some cid"
    and "cycle_findUnique d cid = Some c"
    and "role_in d (userId caller) (c_groupId c) = Some ''admin''"
    and "recipient_field rt (body req ''recipientUserId'') = Some rc"
    and "case rc of None \<Rightarrow> True
         | Some r \<Rightarrow> role_in d r (c_groupId c) \<noteq> None \<and> user_findUnique d r \<noteq> None"
    and "status_field (body req ''status'') = Some st"
  shows "fst (put_cycles rt d req)
           = d\<lparr>cycles := update_where (\<lambda>x. c_id x = cid)
                  (\<lambda>c. c\<lparr>c_recipientUserId := rc, c_status := assign st (c_status c)\<rparr>)
                  (cycles d)\<rparr>
       \<and> status (snd (put_cycles rt d req)) = 200"
proof -
  obtain m where m: "membership_findUnique_userId_groupId d (userId caller) (c_groupId c) = Some m"
    "m_role m = ''admin''"
    using assms(4) by (auto simp add: role_in_def)
  have member: "\<not> (case rc of None \<Rightarrow> False
      | Some r \<Rightarrow> membership_findUnique_userId_groupId d r (c_groupId c) = None)"
    using assms(6) by (cases rc) (auto simp add: role_in_def)
  have fk: "\<not> (case Put rc of Put (Some r) \<Rightarrow> user_findUnique d r = None | _ \<Rightarrow> False)"
    using assms(6) by (cases rc) auto
  have upd: "cycle_update d cid (Put rc) st
      = Some (c\<lparr>c_recipientUserId := rc, c_status := assign st (c_status c)\<rparr>,
              d\<lparr>cycles := update_where (\<lambda>x. c_id x = cid)
                  (\<lambda>c. c\<lparr>c_recipientUserId := rc, c_status := assign st (c_status c)\<rparr>)
                  (cycles d)\<rparr>)"
    unfolding cycle_update_def using assms(3) fk by (simp add: Let_def)
  show ?thesis
    unfolding put_cycles_def
    using assms(1,2,3,5,7) m member by (simp add: upd)
qed

lemma recipient_field_value:
  "recipient_field rt v = Some rc \<Longrightarrow> rc = (if truthy v then parseInt rt v else None)"
  by (auto simp add: recipient_field_def split: if_splits option.splits)

lemma status_field_value:
  "status_field v = Some st \<Longrightarrow>
     assign st old = (case v of JStr s \<Rightarrow> if s = [] then old else s | _ \<Rightarrow> old)"
  by (cases v) (auto simp add: status_field_def required_string_def split: if_splits)

lemma cycle_update_acceptedE:
  assumes "cycle_update_accepted rt d gid req"
  obtains rc st where
    "recipient_field rt (body req ''recipientUserId'') = Some rc"
    "case rc of None \<Rightarrow> True
     | Some r \<Rightarrow> role_in d r gid \<noteq> None \<and> user_findUnique d r \<noteq> None"
    "status_field (body req ''status'') = Some st"
  using assms by (auto simp add: cycle_update_accepted_def split: option.splits)

lemma put_cycles_accepted:
  assumes "authMiddleware rt req = Inr caller"
    and "parseInt rt (JStr (param req)) = Some cid"
    and "cycle_findUnique d cid = Some c"
    and "role_in d (userId caller) (c_groupId c) = Some ''admin''"
    and "cycle_update_accepted rt d (c_groupId c) req"
  shows "status (snd (put_cycles rt d req)) = 200
       \<and> cycle_findUnique (fst (put_cycles rt d req)) cid
           = Some (c\<lparr>c_recipientUserId :=
                       (if truthy (body req ''recipientUserId'')
                        then parseInt rt (body req ''recipientUserId'') else None),
                     c_status :=
                       (case body req ''status'' of
                          JStr s \<Rightarrow> if s = [] then c_status c else s
                        | _ \<Rightarrow> c_status c)\<rparr>)"
proof -
  from assms(5) obtain rc st where acc:
    "recipient_field rt (body req ''recipientUserId'') = Some rc"
    "case rc of None \<Rightarrow> True
     | Some r \<Rightarrow> role_in d r (c_groupId c) \<noteq> None \<and> user_findUnique d r \<noteq> None"
    "status_field (body req ''status'') = Some st"
    by (rule cycle_update_acceptedE)
  let ?f = "\<lambda>c. c\<lparr>c_recipientUserId := rc, c_status := assign st (c_status c)\<rparr>"
  note run = put_cycles_run [OF assms(1-4) acc]
  have "find (\<lambda>x. c_id x = cid) (update_where (\<lambda>x. c_id x = cid) ?f (cycles d))
      = map_option ?f (find (\<lambda>x. c_id x = cid) (cycles d))"
    by (rule find_update_where) simp
  with assms(3) have "cycle_findUnique (fst (put_cycles rt d req)) cid = Some (?f c)"
    by (simp add: run cycle_findUnique_def)
  then show ?thesis
    by (simp add: run recipient_field_value [OF acc(1)] status_field_value [OF acc(3)])
qed


text \<open>
  C10. For every cycle with an assigned recipient, an update by an admin of its group whose
  body has no \<open>recipientUserId\<close> (for example one that carries only a status) answers 200
  and leaves the cycle with the recipient \<open>null\<close>: the recipient is not what it was.
\<close>

theorem put_cycles_omitted_recipient_nulled:
  assumes "authMiddleware rt req = Inr caller"
    and "parseInt rt (JStr (param req)) = Some cid"
    and "cycle_findUnique d cid = Some c"
    and "c_recipientUserId c = Some r"
    and "role_in d (userId caller) (c_groupId c) = Some ''admin''"
    and "body req ''recipientUserId'' = JUndefined"
    and "status_field (body req ''status'') \<noteq> None"
  shows "status (snd (put_cycles rt d req)) = 200
       \<and> map_option c_recipientUserId (cycle_findUnique (fst (put_cycles rt d req)) cid)
           = Some None
       \<and> map_option c_recipientUserId (cycle_findUnique (fst (put_cycles rt d req)) cid)
           \<noteq> map_option c_recipientUserId (cycle_findUnique d cid)"
proof -
  have "cycle_update_accepted rt d (c_groupId c) req"
    using assms(6,7) by (simp add: cycle_update_accepted_def recipient_field_def)
  from put_cycles_accepted [OF assms(1-3) assms(5) this] assms(3,4,6)
  show ?thesis by simp
qed

lemma cycle1_db0: "cycle_findUnique db0 1 = Some cycle1"
  by (simp add: db_defs find_defs)





text \<open>Alice reopens cycle 1 with a body that carries only the status: Bob is no longer its recipient.\<close>

theorem put_cycles_omitted_recipient_nulled_witness:
  "cycle_findUnique db0 1 = Some cycle1
   \<and> c_recipientUserId cycle1 = Some 2
   \<and> role_in db0 1 (c_groupId cycle1) = Some ''admin''
   \<and> body (bearer ''tok-alice'' ''1'' [(''status'', JStr ''active'')]) ''recipientUserId'' = JUndefined
   \<and> status_field (body (bearer ''tok-alice'' ''1'' [(''status'', JStr ''active'')]) ''status'')
       = Some (Put ''active'')
   \<and> status (snd (put_cycles test_runtime db0
        (bearer ''tok-alice'' ''1'' [(''status'', JStr ''active'')]))) = 200
   \<and> map_option c_recipientUserId (cycle_findUnique (fst (put_cycles test_runtime db0
        (bearer ''tok-alice'' ''1'' [(''status'', JStr ''active'')]))) 1) = Some None"
proof -
  let ?r = "bearer ''tok-alice'' ''1'' [(''status'', JStr ''active'')]"
  have a: "authMiddleware test_runtime ?r = Inr \<lparr>userId = 1, email = ''alice@x.org''\<rparr>"
    and p: "parseInt test_runtime (JStr (param ?r)) = Some 1"
    by simp_all
  have rc: "c_recipientUserId cycle1 = Some 2"
    by (simp add: cycle1_def)
  have role: "role_in db0 (userId \<lparr>userId = 1, email = ''alice@x.org''\<rparr>) (c_groupId cycle1)
      = Some ''admin''"
    by (simp add: roles_db0 cycle1_def)
  have u: "body ?r ''recipientUserId'' = JUndefined"
    by (simp add: body_of_def)
  have st: "status_field (body ?r ''status'') = Some (Put ''active'')"
    by (simp add: body_of_def status_field_def required_string_def)
  then have st': "status_field (body ?r ''status'') \<noteq> None"
    by simp
  show ?thesis
    using put_cycles_omitted_recipient_nulled [OF a p cycle1_db0 rc role u st']
      cycle1_db0 rc role u st
    by simp
qed

end
